theory Spec2Isabelle
  imports Main "HOL-Library.AList"
begin

section \<open>Data model\<close>

text \<open>
  One record of the upstream: a trade tick or a candle. Only the column that orders the
  records is read by \<^verbatim>\<open>main.py\<close> (column \<^verbatim>\<open>a\<close> of a trade, column
  \<^verbatim>\<open>open_time\<close> of a candle), together with column \<^verbatim>\<open>T\<close> of a trade, which is
  only printed. A pandas DataFrame is the list of its rows; \<^verbatim>\<open>df.empty\<close> is
  \<open>df = []\<close> and \<^verbatim>\<open>len(df.index)\<close> is \<open>length df\<close>. The keys of a column are
  values of numpy's \<^verbatim>\<open>int64\<close>.
\<close>

record row =
  cursor_key :: int
  event_time :: int

type_synonym page = "row list"

text \<open>
  The numbers that the drivers keep as cursor: a Python int (from the command line, or
  the literal \<^verbatim>\<open>-1\<close>), an \<^verbatim>\<open>int64\<close> (the \<^verbatim>\<open>max()\<close> of a column), or the float
  NaN (the \<^verbatim>\<open>max()\<close> of a column without rows). \<^verbatim>\<open>x + 1\<close> is exact on a Python
  int, wraps around on an \<^verbatim>\<open>int64\<close> and leaves NaN as it is. Numbers compare by
  value; every comparison with NaN is false, except \<^verbatim>\<open>!=\<close>, which is true.
\<close>

datatype pynum = PyInt int | Int64 int | NaN

definition wrap64 :: "int \<Rightarrow> int" where
  "wrap64 n = (n + 2 ^ 63) mod 2 ^ 64 - 2 ^ 63"

fun num_value :: "pynum \<Rightarrow> int option" where
  "num_value (PyInt n) = Some n"
| "num_value (Int64 n) = Some n"
| "num_value NaN = None"

fun add_one :: "pynum \<Rightarrow> pynum" where
  "add_one (PyInt n) = PyInt (n + 1)"
| "add_one (Int64 n) = Int64 (wrap64 (n + 1))"
| "add_one NaN = NaN"

definition num_ne :: "pynum \<Rightarrow> pynum \<Rightarrow> bool" where
  "num_ne a b = (case (num_value a, num_value b) of (Some x, Some y) \<Rightarrow> x \<noteq> y | _ \<Rightarrow> True)"

definition num_ge :: "pynum \<Rightarrow> pynum \<Rightarrow> bool" where
  "num_ge a b = (case (num_value a, num_value b) of (Some x, Some y) \<Rightarrow> y \<le> x | _ \<Rightarrow> False)"

definition num_gt0 :: "pynum \<Rightarrow> bool" where
  "num_gt0 a = (case num_value a of Some x \<Rightarrow> 0 < x | None \<Rightarrow> False)"

text \<open>
  The values stored in the \<^verbatim>\<open>params\<close> dict: numbers, strings, and the hash object
  that \<^verbatim>\<open>hashlib.sha256(API_SECRET.encode('utf-8'))\<close> returns (kept as the string
  that was hashed). The dict itself is an association list in insertion order:
  \<^verbatim>\<open>params[k]\<close> is \<open>map_of params k\<close> (KeyError when \<open>None\<close>) and
  \<^verbatim>\<open>params[k] = v\<close> is \<open>AList.update k v params\<close>.
\<close>

datatype pval = NumV pynum | StrV string | HashV string

abbreviation IntV :: "int \<Rightarrow> pval" where
  "IntV n \<equiv> NumV (PyInt n)"

type_synonym params = "(string \<times> pval) list"

text \<open>
  The network. An exception raised by a request is \<^verbatim>\<open>requests.exceptions.ConnectionError\<close>,
  \<^verbatim>\<open>requests.exceptions.Timeout\<close>, the builtin \<^verbatim>\<open>ConnectionResetError\<close>, or any other.
  The upstream is a script: the outcome of each call of the \<^verbatim>\<open>time\<close> endpoint and the
  outcome of each call of the data endpoint, in the order of the calls. A script that
  runs out while the program asks for one more outcome gives \<open>None\<close>: the program has not
  returned within the script.
\<close>

datatype exn = ConnectionError | Timeout | ConnectionResetError | OtherException

datatype time_event = TimeRaise exn | TimeJSON "int option"

datatype net_event = Raise exn | Response int page

datatype py_error =
    KeyError string
  | TypeError
  | ValueError
  | AttributeError
  | NameError string
  | UnboundLocalError string

text \<open>
  \<^verbatim>\<open>UnboundLocalError\<close> is a subclass of \<^verbatim>\<open>NameError\<close> in Python.
\<close>

fun is_NameError :: "py_error \<Rightarrow> bool" where
  "is_NameError (NameError n) = True"
| "is_NameError (UnboundLocalError n) = True"
| "is_NameError e = False"

text \<open>
  Everything outside the text of the program: the requests sent to the data endpoint
  (resource path, query parameters, the \<^verbatim>\<open>X-MBX-APIKEY\<close> header), the number of calls
  of the \<^verbatim>\<open>time\<close> endpoint, the seconds spent in \<^verbatim>\<open>time.sleep\<close>, the CSV files, the
  calls of \<^verbatim>\<open>pp.append_to_csv\<close>, the parquet files, and \<open>stack_room\<close>: how many calls
  of \<^verbatim>\<open>get_batch\<close> nested in a call made by a driver the interpreter's recursion limit
  leaves room for.
\<close>

record world =
  sent :: "(string \<times> params \<times> string option) list"
  time_calls :: nat
  slept :: nat
  files :: "(string \<times> page) list"
  csv_appends :: "(string \<times> page) list"
  parquet_files :: "(string \<times> page) list"
  stack_room :: nat

section \<open>get_batch\<close>

datatype attempt = Raised exn | Failed py_error | Got int page

definition cool_down :: "world \<Rightarrow> world" where
  "cool_down w = w\<lparr>slept := slept w + 5 * 60\<rparr>"

definition get_time :: "world \<Rightarrow> world" where
  "get_time w = w\<lparr>time_calls := Suc (time_calls w)\<rparr>"

definition requests_get ::
  "string \<Rightarrow> params \<Rightarrow> string option \<Rightarrow> world \<Rightarrow> time_event list \<Rightarrow> net_event list \<Rightarrow>
   (attempt \<times> params \<times> world \<times> time_event list \<times> net_event list) option" where
  "requests_get api_path params header w ts ds =
     (case ds of
        [] \<Rightarrow> None
      | Raise x # ds' \<Rightarrow>
          Some (Raised x, params, w\<lparr>sent := sent w @ [(api_path, params, header)]\<rparr>, ts, ds')
      | Response status body # ds' \<Rightarrow>
          Some (Got status body, params, w\<lparr>sent := sent w @ [(api_path, params, header)]\<rparr>, ts, ds'))"

text \<open>
  The \<^verbatim>\<open>try\<close> block of \<^verbatim>\<open>get_batch\<close> (lines 79 to 90): the signing path when both
  \<^verbatim>\<open>API_KEY\<close> and \<^verbatim>\<open>API_SECRET\<close> are set, then the request. The two module globals
  are parameters here. The result says how the block ended: with a response, with an
  exception of a request, or with another Python error (the server's answer has no
  \<^verbatim>\<open>serverTime\<close>).
\<close>

definition try_block ::
  "string option \<Rightarrow> string option \<Rightarrow> params \<Rightarrow> string \<Rightarrow> world \<Rightarrow> time_event list \<Rightarrow> net_event list \<Rightarrow>
   (attempt \<times> params \<times> world \<times> time_event list \<times> net_event list) option" where
  "try_block key secret params api_path w ts ds =
     (case (key, secret) of
        (Some k, Some s) \<Rightarrow>
          (case ts of
             [] \<Rightarrow> None
           | TimeRaise x # ts' \<Rightarrow> Some (Raised x, params, get_time w, ts', ds)
           | TimeJSON None # ts' \<Rightarrow>
               Some (Failed (KeyError ''serverTime''), params, get_time w, ts', ds)
           | TimeJSON (Some servertimeint) # ts' \<Rightarrow>
               requests_get api_path
                 (AList.update ''timestamp'' (IntV servertimeint)
                   (AList.update ''signiature'' (HashV s) params))
                 (Some k) (get_time w) ts' ds)
      | _ \<Rightarrow> requests_get api_path params None w ts ds)"

lemma requests_get_shorter:
  "requests_get api_path params header w ts ds = Some (a, params', w', ts', ds') \<Longrightarrow>
   ts' = ts \<and> length ds' < length ds"
  by (auto simp: requests_get_def split: list.splits net_event.splits)

lemma try_block_shorter:
  "try_block key secret params api_path w ts ds = Some (a, params', w', ts', ds') \<Longrightarrow>
   length ts' + length ds' < length ts + length ds"
  by (auto simp: try_block_def split: option.splits list.splits time_event.splits
      dest!: requests_get_shorter)

text \<open>
  \<^verbatim>\<open>get_batch\<close> (lines 74 to 114); \<open>room\<close> is the number of nested calls that still
  fit under the recursion limit. The clauses for \<^verbatim>\<open>ConnectionError\<close> and for
  \<^verbatim>\<open>Timeout\<close> sleep five minutes and call \<^verbatim>\<open>get_batch\<close> again with the same
  arguments; the \<^verbatim>\<open>params\<close> dict is the same object, with whatever the signing path has
  stored in it. The third clause names \<^verbatim>\<open>requests.exceptions.ConnectionResetError\<close>,
  which the requests library does not define: for every exception that the first two
  clauses do not catch, the clause is evaluated and raises AttributeError. That is also
  the end of a nested call without room: its request raises RecursionError inside the
  \<^verbatim>\<open>try\<close> block before anything is sent. A response of status 200 is decoded to its
  rows, any other status gives the empty DataFrame.
\<close>

function get_batch ::
  "nat \<Rightarrow> string option \<Rightarrow> string option \<Rightarrow> params \<Rightarrow> string \<Rightarrow> world \<Rightarrow> time_event list \<Rightarrow>
   net_event list \<Rightarrow>
   ((py_error + page) \<times> params \<times> world \<times> time_event list \<times> net_event list) option" where
  "get_batch room key secret params api_path w ts ds =
     (case try_block key secret params api_path w ts ds of
        None \<Rightarrow> None
      | Some (Raised x, params', w', ts', ds') \<Rightarrow>
          (case x of
             ConnectionError \<Rightarrow>
               (if room = 0 then Some (Inl AttributeError, params', cool_down w', ts', ds')
                else get_batch (room - 1) key secret params' api_path (cool_down w') ts' ds')
           | Timeout \<Rightarrow>
               (if room = 0 then Some (Inl AttributeError, params', cool_down w', ts', ds')
                else get_batch (room - 1) key secret params' api_path (cool_down w') ts' ds')
           | ConnectionResetError \<Rightarrow> Some (Inl AttributeError, params', w', ts', ds')
           | OtherException \<Rightarrow> Some (Inl AttributeError, params', w', ts', ds'))
      | Some (Failed e, params', w', ts', ds') \<Rightarrow> Some (Inl AttributeError, params', w', ts', ds')
      | Some (Got status body, params', w', ts', ds') \<Rightarrow>
          (if status = 200 then
             (if api_path = ''klines'' then Some (Inr body, params', w', ts', ds')
              else Some (Inr body, params', w', ts', ds'))
           else Some (Inr [], params', w', ts', ds')))"
  by pat_completeness auto
termination
  by (relation "measure (\<lambda>(room, key, secret, params, api_path, w, ts, ds). length ts + length ds)")
     (auto dest: try_block_shorter)

declare get_batch.simps [simp del]

text \<open>
  The failures that \<^verbatim>\<open>get_batch\<close> retries.
\<close>

definition transient :: "exn \<Rightarrow> bool" where
  "transient x = (x = ConnectionError \<or> x = Timeout)"

lemma get_batch_None:
  "try_block key secret params api_path w ts ds = None \<Longrightarrow>
   get_batch room key secret params api_path w ts ds = None"
  by (simp add: get_batch.simps)

lemma get_batch_retry:
  "try_block key secret params api_path w ts ds = Some (Raised x, p1, w1, ts1, ds1) \<Longrightarrow>
   transient x \<Longrightarrow> 0 < room \<Longrightarrow>
   get_batch room key secret params api_path w ts ds =
     get_batch (room - 1) key secret p1 api_path (cool_down w1) ts1 ds1"
  by (subst get_batch.simps) (auto simp: transient_def)

lemma get_batch_no_room:
  "try_block key secret params api_path w ts ds = Some (Raised x, p1, w1, ts1, ds1) \<Longrightarrow>
   transient x \<Longrightarrow> room = 0 \<Longrightarrow>
   get_batch room key secret params api_path w ts ds =
     Some (Inl AttributeError, p1, cool_down w1, ts1, ds1)"
  by (subst get_batch.simps) (auto simp: transient_def)

lemma get_batch_uncaught:
  "try_block key secret params api_path w ts ds = Some (Raised x, p1, w1, ts1, ds1) \<Longrightarrow>
   \<not> transient x \<Longrightarrow>
   get_batch room key secret params api_path w ts ds = Some (Inl AttributeError, p1, w1, ts1, ds1)"
  by (subst get_batch.simps) (cases x; simp add: transient_def)

lemma get_batch_Failed:
  "try_block key secret params api_path w ts ds = Some (Failed e, p1, w1, ts1, ds1) \<Longrightarrow>
   get_batch room key secret params api_path w ts ds = Some (Inl AttributeError, p1, w1, ts1, ds1)"
  by (simp add: get_batch.simps)

lemma get_batch_Got:
  "try_block key secret params api_path w ts ds = Some (Got status body, p1, w1, ts1, ds1) \<Longrightarrow>
   get_batch room key secret params api_path w ts ds =
     Some (Inr (if status = 200 then body else []), p1, w1, ts1, ds1)"
  by (simp add: get_batch.simps)

text \<open>
  Induction over the retries of one call.
\<close>

lemma get_batch_induct [consumes 1, case_names retry no_room uncaught failed got]:
  assumes run: "get_batch room key secret params api_path w ts ds = Some res"
    and retry: "\<And>room params w ts ds x p1 w1 ts1 ds1.
      try_block key secret params api_path w ts ds = Some (Raised x, p1, w1, ts1, ds1) \<Longrightarrow>
      transient x \<Longrightarrow> 0 < room \<Longrightarrow>
      get_batch (room - 1) key secret p1 api_path (cool_down w1) ts1 ds1 = Some res \<Longrightarrow>
      P (room - 1) p1 (cool_down w1) ts1 ds1 \<Longrightarrow> P room params w ts ds"
    and no_room: "\<And>room params w ts ds x p1 w1 ts1 ds1.
      try_block key secret params api_path w ts ds = Some (Raised x, p1, w1, ts1, ds1) \<Longrightarrow>
      transient x \<Longrightarrow> room = 0 \<Longrightarrow>
      res = (Inl AttributeError, p1, cool_down w1, ts1, ds1) \<Longrightarrow> P room params w ts ds"
    and uncaught: "\<And>room params w ts ds x p1 w1 ts1 ds1.
      try_block key secret params api_path w ts ds = Some (Raised x, p1, w1, ts1, ds1) \<Longrightarrow>
      \<not> transient x \<Longrightarrow> res = (Inl AttributeError, p1, w1, ts1, ds1) \<Longrightarrow> P room params w ts ds"
    and failed: "\<And>room params w ts ds e p1 w1 ts1 ds1.
      try_block key secret params api_path w ts ds = Some (Failed e, p1, w1, ts1, ds1) \<Longrightarrow>
      res = (Inl AttributeError, p1, w1, ts1, ds1) \<Longrightarrow> P room params w ts ds"
    and got: "\<And>room params w ts ds status body p1 w1 ts1 ds1.
      try_block key secret params api_path w ts ds = Some (Got status body, p1, w1, ts1, ds1) \<Longrightarrow>
      res = (Inr (if status = 200 then body else []), p1, w1, ts1, ds1) \<Longrightarrow> P room params w ts ds"
  shows "P room params w ts ds"
  using run
proof (induction "length ts + length ds" arbitrary: room params w ts ds rule: less_induct)
  case less
  note run = \<open>get_batch room key secret params api_path w ts ds = Some res\<close>
  show ?case
  proof (cases "try_block key secret params api_path w ts ds")
    case None
    with run show ?thesis by (simp add: get_batch_None)
  next
    case (Some t)
    obtain a p1 w1 ts1 ds1 where t: "t = (a, p1, w1, ts1, ds1)" by (cases t) auto
    note tb = Some [unfolded t]
    show ?thesis
    proof (cases a)
      case (Raised x)
      note tbr = tb [unfolded Raised]
      show ?thesis
      proof (cases "transient x")
        case False
        from run get_batch_uncaught [OF tbr False, of room]
        have "res = (Inl AttributeError, p1, w1, ts1, ds1)" by simp
        with tbr False show ?thesis by (rule uncaught)
      next
        case True
        show ?thesis
        proof (cases "room = 0")
          case z: True
          from run get_batch_no_room [OF tbr True z]
          have "res = (Inl AttributeError, p1, cool_down w1, ts1, ds1)" by simp
          with tbr True z show ?thesis by (rule no_room)
        next
          case False
          then have pos: "0 < room" by simp
          from run get_batch_retry [OF tbr True pos]
          have rec: "get_batch (room - 1) key secret p1 api_path (cool_down w1) ts1 ds1 = Some res"
            by simp
          from try_block_shorter [OF tbr]
          have "length ts1 + length ds1 < length ts + length ds" .
          from less.hyps [OF this rec] have "P (room - 1) p1 (cool_down w1) ts1 ds1" .
          with tbr True pos rec show ?thesis by (rule retry)
        qed
      qed
    next
      case (Failed e)
      note tbf = tb [unfolded Failed]
      from run get_batch_Failed [OF tbf, of room]
      have "res = (Inl AttributeError, p1, w1, ts1, ds1)" by simp
      with tbf show ?thesis by (rule failed)
    next
      case (Got status body)
      note tbg = tb [unfolded Got]
      from run get_batch_Got [OF tbg, of room]
      have "res = (Inr (if status = 200 then body else []), p1, w1, ts1, ds1)" by simp
      with tbg show ?thesis by (rule got)
    qed
  qed
qed

lemma get_batch_shorter:
  assumes "get_batch room key secret params api_path w ts ds = Some (Inr new_batch, params', w', ts', ds')"
  shows "length ds' < length ds"
  using assms
proof (induction rule: get_batch_induct)
  case (retry room params w ts ds x p1 w1 ts1 ds1)
  from retry(1) have "length ds1 \<le> length ds"
    by (auto simp: try_block_def split: option.splits list.splits time_event.splits
        dest!: requests_get_shorter)
  with retry(5) show ?case by simp
next
  case (got room params w ts ds status body p1 w1 ts1 ds1)
  from got(1) have "length ds1 < length ds"
    by (auto simp: try_block_def split: option.splits list.splits time_event.splits
        dest!: requests_get_shorter)
  with got(2) show ?case by simp
qed simp_all

section \<open>The Integrity Module\<close>

text \<open>
  \<^verbatim>\<open>src/preprocessing.py\<close> (imported as \<^verbatim>\<open>pp\<close>) assembles and writes the tables.
  The largest cursor key of a non-empty table is a fold; \<^verbatim>\<open>df[field].max()\<close> is that
  key as an \<^verbatim>\<open>int64\<close>, and NaN on a table without rows.
\<close>

fun max_key :: "page \<Rightarrow> int" where
  "max_key (r # rs) = fold max (map cursor_key rs) (cursor_key r)"

definition column_max :: "page \<Rightarrow> pynum" where
  "column_max df = (if df = [] then NaN else Int64 (max_key df))"

text \<open>
  Modelled from the spec: \<^verbatim>\<open>pp.prepare_df(batches, field)\<close> is not among the sources.
  It concatenates the accumulated pages and produces one duplicate-free table sorted
  ascending by the cursor field; of the rows that share a key the last one is kept. The
  \<^verbatim>\<open>field\<close> argument names the cursor column, which is \<open>cursor_key\<close> here.
\<close>

definition prepare_df :: "page list \<Rightarrow> page" where
  "prepare_df batches =
     (let rows = concat batches
      in map (\<lambda>k. last (filter (\<lambda>r. cursor_key r = k) rows))
           (sort (remdups (map cursor_key rows))))"

text \<open>
  Modelled from the spec: \<^verbatim>\<open>pp.append_to_csv(df, filepath)\<close> is not among the sources.
  It appends the table to the CSV file of the instrument, which it creates when absent.
  Every call is also kept in \<open>csv_appends\<close>.
\<close>

definition append_to_csv :: "page \<Rightarrow> string \<Rightarrow> world \<Rightarrow> world" where
  "append_to_csv df filepath w =
     w\<lparr>files := AList.update filepath
                 ((case map_of (files w) filepath of None \<Rightarrow> [] | Some old \<Rightarrow> old) @ df)
                 (files w),
       csv_appends := csv_appends w @ [(filepath, df)]\<rparr>"

text \<open>
  Modelled from the spec: \<^verbatim>\<open>pp.write_raw_to_parquet(df, full_path)\<close> is not among the
  sources. It rewrites the columnar snapshot from the table.
\<close>

definition write_raw_to_parquet :: "page \<Rightarrow> string \<Rightarrow> world \<Rightarrow> world" where
  "write_raw_to_parquet df full_path w =
     w\<lparr>parquet_files := AList.update full_path df (parquet_files w)\<rparr>"

section \<open>The drivers\<close>

text \<open>
  \<^verbatim>\<open>lines = len(batches)*params['limit']\<close> followed by \<^verbatim>\<open>lines >= 5000\<close> (lines 181
  and 182, 266 and 267). \<^verbatim>\<open>--limit\<close> has no \<^verbatim>\<open>type=int\<close>: the default is the
  int 1000, a value given on the command line is a string, and comparing the repeated
  string with 5000 raises TypeError.
\<close>

definition lines_reached :: "page list \<Rightarrow> params \<Rightarrow> py_error + bool" where
  "lines_reached batches params =
     (case map_of params ''limit'' of
        None \<Rightarrow> Inl (KeyError ''limit'')
      | Some (NumV (PyInt l)) \<Rightarrow> Inr (5000 \<le> int (length batches) * l)
      | Some (NumV (Int64 l)) \<Rightarrow> Inr (5000 \<le> wrap64 (int (length batches) * l))
      | Some (NumV NaN) \<Rightarrow> Inr False
      | Some (StrV s) \<Rightarrow> Inl TypeError
      | Some (HashV h) \<Rightarrow> Inl TypeError)"

text \<open>
  The \<^verbatim>\<open>while\<close> loop of \<^verbatim>\<open>all_trade_to_csv\<close> (lines 148 to 186). The local
  variable \<^verbatim>\<open>df\<close> is \<open>None\<close> while unbound. The loop ends with the values of
  \<^verbatim>\<open>params\<close>, \<^verbatim>\<open>batches\<close> and \<^verbatim>\<open>df\<close>, or with the error that left it. The
  printing of progress is left out.
\<close>

function all_trade_to_csv_loop ::
  "string option \<Rightarrow> string option \<Rightarrow> string \<Rightarrow> pynum \<Rightarrow> pynum \<Rightarrow> params \<Rightarrow> page list \<Rightarrow>
   page option \<Rightarrow> world \<Rightarrow> time_event list \<Rightarrow> net_event list \<Rightarrow>
   ((py_error + params \<times> page list \<times> page option) \<times> world \<times> time_event list \<times> net_event list) option" where
  "all_trade_to_csv_loop key secret filepath previous_id last_id params batches df w ts ds =
     (if \<not> num_ne previous_id last_id then Some (Inr (params, batches, df), w, ts, ds)
      else if num_ge previous_id last_id \<and> num_gt0 previous_id then
        Some (Inr (params, batches, df), w, ts, ds)
      else
        (case get_batch (stack_room w) key secret params ''aggTrades'' w ts ds of
           None \<Rightarrow> None
         | Some (Inl e, params', w', ts', ds') \<Rightarrow> Some (Inl e, w', ts', ds')
         | Some (Inr new_batch, params', w', ts', ds') \<Rightarrow>
             (if new_batch = [] then Some (Inr (params', batches, df), w', ts', ds')
              else
                (case lines_reached (batches @ [new_batch])
                        (AList.update ''fromId'' (NumV (Int64 (wrap64 (max_key new_batch + 1))))
                           params') of
                   Inl e \<Rightarrow> Some (Inl e, w', ts', ds')
                 | Inr True \<Rightarrow>
                     all_trade_to_csv_loop key secret filepath last_id (Int64 (max_key new_batch))
                       (AList.update ''fromId'' (NumV (Int64 (wrap64 (max_key new_batch + 1))))
                          params') []
                       (Some (prepare_df (batches @ [new_batch])))
                       (append_to_csv (prepare_df (batches @ [new_batch])) filepath w') ts' ds'
                 | Inr False \<Rightarrow>
                     all_trade_to_csv_loop key secret filepath last_id (Int64 (max_key new_batch))
                       (AList.update ''fromId'' (NumV (Int64 (wrap64 (max_key new_batch + 1))))
                          params')
                       (batches @ [new_batch]) df w' ts' ds'))))"
  by pat_completeness auto
termination
  by (relation "measure (\<lambda>(key, secret, filepath, previous_id, last_id, params, batches, df, w, ts, ds).
        length ds)")
     (auto dest: get_batch_shorter)

declare all_trade_to_csv_loop.simps [simp del]

text \<open>
  What both drivers do after the loop (lines 189 to 209 and 273 to 293, the same text
  twice): bind \<^verbatim>\<open>df\<close> when the accumulator has more than one element, the parquet
  block, then the write and the count. In the parquet block \<^verbatim>\<open>df\<close> is read first, and
  the f-string with \<^verbatim>\<open>data_type\<close>, a name that neither function nor the module defines,
  is evaluated right after \<^verbatim>\<open>pp.write_raw_to_parquet\<close> has returned.
\<close>

definition after_loop ::
  "string \<Rightarrow> string \<Rightarrow> string \<Rightarrow> bool \<Rightarrow> int \<Rightarrow> page list \<Rightarrow> page option \<Rightarrow> world \<Rightarrow>
   (py_error + int) \<times> world" where
  "after_loop base quote filepath with_parquet old_lines batches df w =
     (let df1 = (if length batches > 1 then Some (prepare_df batches) else df)
      in if with_parquet then
           (case df1 of
              None \<Rightarrow> (Inl (UnboundLocalError ''df''), w)
            | Some d \<Rightarrow>
                (Inl (NameError ''data_type''),
                 write_raw_to_parquet d (''compressed/'' @ base @ ''-'' @ quote @ ''.parquet'') w))
         else if length batches > 1 then
           (case df1 of
              None \<Rightarrow> (Inl (UnboundLocalError ''df''), w)
            | Some d \<Rightarrow> (Inr (int (length d) - old_lines), append_to_csv d filepath w))
         else (Inr 0, w))"

text \<open>
  The start of \<^verbatim>\<open>all_trade_to_csv\<close> (lines 126 to 139): the cursor to resume from
  and the \<^verbatim>\<open>params\<close> of the first request. The file is read only when
  \<^verbatim>\<open>params['fromId']\<close> is 0; nothing tests whether it has rows, so a file without
  rows gives the cursor NaN and \<^verbatim>\<open>fromId\<close> NaN. A \<^verbatim>\<open>fromId\<close> that is not a number
  raises TypeError at \<^verbatim>\<open>last_id + 1\<close>.
\<close>

definition trade_resume :: "string \<Rightarrow> params \<Rightarrow> world \<Rightarrow> py_error + pynum \<times> params" where
  "trade_resume filepath params w =
     (case map_of params ''fromId'' of
        None \<Rightarrow> Inl (KeyError ''fromId'')
      | Some (NumV from_id) \<Rightarrow>
          (if num_value from_id = Some 0 then
             (case map_of (files w) filepath of
                None \<Rightarrow> Inr (from_id, params)
              | Some rows \<Rightarrow>
                  Inr (column_max rows,
                       AList.update ''fromId'' (NumV (add_one (column_max rows))) params))
           else Inr (from_id, AList.update ''fromId'' (NumV (add_one from_id)) params))
      | Some (StrV s) \<Rightarrow> Inl TypeError
      | Some (HashV h) \<Rightarrow> Inl TypeError)"

definition trade_filepath :: "string \<Rightarrow> string \<Rightarrow> string" where
  "trade_filepath base quote = ''data/trade_'' @ base @ ''-'' @ quote @ ''.csv''"

definition candle_filepath :: "string \<Rightarrow> string \<Rightarrow> string \<Rightarrow> string" where
  "candle_filepath base quote interval =
     ''data/candle_'' @ base @ ''-'' @ quote @ ''_interval-'' @ interval @ ''.csv''"

text \<open>
  \<^verbatim>\<open>all_trade_to_csv\<close> (lines 116 to 209). On every path \<^verbatim>\<open>batches\<close> is one
  empty DataFrame when the loop starts, so \<^verbatim>\<open>old_lines\<close> is 0.
\<close>

definition all_trade_to_csv ::
  "string option \<Rightarrow> string option \<Rightarrow> string \<Rightarrow> string \<Rightarrow> params \<Rightarrow> bool \<Rightarrow>
   world \<Rightarrow> time_event list \<Rightarrow> net_event list \<Rightarrow>
   ((py_error + int) \<times> world \<times> time_event list \<times> net_event list) option" where
  "all_trade_to_csv key secret base quote params with_parquet w ts ds =
     (let filepath = trade_filepath base quote
      in case trade_resume filepath params w of
           Inl e \<Rightarrow> Some (Inl e, w, ts, ds)
         | Inr (last_id, params1) \<Rightarrow>
             (let batches = [[]];
                  old_lines = int (length (last batches))
              in case all_trade_to_csv_loop key secret filepath (PyInt (- 1)) last_id params1
                        batches None w ts ds of
                   None \<Rightarrow> None
                 | Some (Inl e, w', ts', ds') \<Rightarrow> Some (Inl e, w', ts', ds')
                 | Some (Inr (params', batches', df), w', ts', ds') \<Rightarrow>
                     (case after_loop base quote filepath with_parquet old_lines batches' df w' of
                        (r, w'') \<Rightarrow> Some (r, w'', ts', ds'))))"

text \<open>
  The \<^verbatim>\<open>while\<close> loop of \<^verbatim>\<open>all_candle_to_csv\<close> (lines 234 to 271).
  \<^verbatim>\<open>previous_timestamp\<close> starts as Python's \<^verbatim>\<open>None\<close>, which differs from every
  number. The test \<^verbatim>\<open>date.fromtimestamp(last_timestamp / 1000) >= date.today()\<close>
  reads the clock and the time zone; it is the parameter \<open>reached_today\<close>, a predicate
  on the timestamp. On NaN \<^verbatim>\<open>date.fromtimestamp\<close> raises ValueError.
\<close>

definition unchanged :: "pynum option \<Rightarrow> pynum \<Rightarrow> bool" where
  "unchanged previous current = (case previous of None \<Rightarrow> False | Some p \<Rightarrow> \<not> num_ne p current)"

function all_candle_to_csv_loop ::
  "string option \<Rightarrow> string option \<Rightarrow> (int \<Rightarrow> bool) \<Rightarrow> string \<Rightarrow> pynum option \<Rightarrow> pynum \<Rightarrow> params \<Rightarrow>
   page list \<Rightarrow> page option \<Rightarrow> world \<Rightarrow> time_event list \<Rightarrow> net_event list \<Rightarrow>
   ((py_error + params \<times> page list \<times> page option) \<times> world \<times> time_event list \<times> net_event list) option" where
  "all_candle_to_csv_loop key secret reached_today filepath previous_timestamp last_timestamp
       params batches df w ts ds =
     (if unchanged previous_timestamp last_timestamp then Some (Inr (params, batches, df), w, ts, ds)
      else
        (case num_value last_timestamp of
           None \<Rightarrow> Some (Inl ValueError, w, ts, ds)
         | Some t \<Rightarrow>
             (if reached_today t then Some (Inr (params, batches, df), w, ts, ds)
              else
                (case get_batch (stack_room w) key secret
                        (AList.update ''startTime'' (NumV (add_one last_timestamp)) params)
                        ''klines'' w ts ds of
                   None \<Rightarrow> None
                 | Some (Inl e, params', w', ts', ds') \<Rightarrow> Some (Inl e, w', ts', ds')
                 | Some (Inr new_batch, params', w', ts', ds') \<Rightarrow>
                     (if new_batch = [] then Some (Inr (params', batches, df), w', ts', ds')
                      else if t = max_key new_batch then
                        Some (Inr (params', batches, df), w', ts', ds')
                      else
                        (case lines_reached (batches @ [new_batch]) params' of
                           Inl e \<Rightarrow> Some (Inl e, w', ts', ds')
                         | Inr True \<Rightarrow>
                             all_candle_to_csv_loop key secret reached_today filepath
                               (Some last_timestamp) (Int64 (max_key new_batch)) params' []
                               (Some (prepare_df (batches @ [new_batch])))
                               (append_to_csv (prepare_df (batches @ [new_batch])) filepath w')
                               ts' ds'
                         | Inr False \<Rightarrow>
                             all_candle_to_csv_loop key secret reached_today filepath
                               (Some last_timestamp) (Int64 (max_key new_batch)) params'
                               (batches @ [new_batch]) df w' ts' ds'))))))"
  by pat_completeness auto
termination
  by (relation "measure (\<lambda>(key, secret, reached_today, filepath, previous_timestamp, last_timestamp,
        params, batches, df, w, ts, ds). length ds)")
     (auto dest: get_batch_shorter)

declare all_candle_to_csv_loop.simps [simp del]

text \<open>
  The start of \<^verbatim>\<open>all_candle_to_csv\<close> (lines 220 to 228): the accumulator, which
  begins with the table read from the file or with an empty one, and the cursor. A start
  value that is not a number raises TypeError at the first date test, before anything
  else happens.
\<close>

definition candle_resume :: "string \<Rightarrow> params \<Rightarrow> world \<Rightarrow> py_error + page list \<times> pynum" where
  "candle_resume filepath params w =
     (case map_of (files w) filepath of
        Some rows \<Rightarrow> Inr ([rows], column_max rows)
      | None \<Rightarrow>
          (case map_of params ''startTime'' of
             None \<Rightarrow> Inl (KeyError ''startTime'')
           | Some (NumV start) \<Rightarrow> Inr ([[]], start)
           | Some (StrV s) \<Rightarrow> Inl TypeError
           | Some (HashV h) \<Rightarrow> Inl TypeError))"

definition all_candle_to_csv ::
  "string option \<Rightarrow> string option \<Rightarrow> (int \<Rightarrow> bool) \<Rightarrow> string \<Rightarrow> string \<Rightarrow> params \<Rightarrow> string \<Rightarrow> bool \<Rightarrow>
   world \<Rightarrow> time_event list \<Rightarrow> net_event list \<Rightarrow>
   ((py_error + int) \<times> world \<times> time_event list \<times> net_event list) option" where
  "all_candle_to_csv key secret reached_today base quote params interval with_parquet w ts ds =
     (let filepath = candle_filepath base quote interval
      in case candle_resume filepath params w of
           Inl e \<Rightarrow> Some (Inl e, w, ts, ds)
         | Inr (batches, last_timestamp) \<Rightarrow>
             (let old_lines = int (length (last batches))
              in case all_candle_to_csv_loop key secret reached_today filepath None last_timestamp
                        params batches None w ts ds of
                   None \<Rightarrow> None
                 | Some (Inl e, w', ts', ds') \<Rightarrow> Some (Inl e, w', ts', ds')
                 | Some (Inr (params', batches', df), w', ts', ds') \<Rightarrow>
                     (case after_loop base quote filepath with_parquet old_lines batches' df w' of
                        (r, w'') \<Rightarrow> Some (r, w'', ts', ds'))))"

section \<open>The orchestrator\<close>

text \<open>
  The arguments that \<^verbatim>\<open>parse_args\<close> returns and \<^verbatim>\<open>main.py\<close> reads.
  \<^verbatim>\<open>--dtype\<close> is declared without \<^verbatim>\<open>choices\<close>: any string is accepted.
\<close>

record args =
  arg_dtype :: string
  arg_interval :: string
  arg_limit :: pval
  arg_start_at :: int
  arg_parquet :: bool

definition API_KEY :: "string option" where
  "API_KEY = None"

definition API_SECRET :: "string option" where
  "API_SECRET = None"

definition get_historical_candlesticks ::
  "args \<Rightarrow> (int \<Rightarrow> bool) \<Rightarrow> string \<Rightarrow> string \<Rightarrow> world \<Rightarrow> time_event list \<Rightarrow> net_event list \<Rightarrow>
   ((py_error + int) \<times> world \<times> time_event list \<times> net_event list) option" where
  "get_historical_candlesticks a reached_today base quote w ts ds =
     all_candle_to_csv API_KEY API_SECRET reached_today base quote
       [(''symbol'', StrV (base @ quote)), (''interval'', StrV (arg_interval a)),
        (''startTime'', IntV (arg_start_at a)), (''limit'', arg_limit a)]
       (arg_interval a) (arg_parquet a) w ts ds"

definition get_historical_agg_trades ::
  "args \<Rightarrow> string \<Rightarrow> string \<Rightarrow> world \<Rightarrow> time_event list \<Rightarrow> net_event list \<Rightarrow>
   ((py_error + int) \<times> world \<times> time_event list \<times> net_event list) option" where
  "get_historical_agg_trades a base quote w ts ds =
     all_trade_to_csv API_KEY API_SECRET base quote
       [(''symbol'', StrV (base @ quote)), (''fromId'', IntV (arg_start_at a)),
        (''limit'', arg_limit a)]
       (arg_parquet a) w ts ds"

text \<open>
  The \<^verbatim>\<open>for\<close> loop of \<^verbatim>\<open>main\<close> (lines 362 to 376) over \<^verbatim>\<open>all_pairs\<close> as it is
  after \<^verbatim>\<open>random.shuffle\<close>; a pair is the tuple that \<^verbatim>\<open>pair.split('-')\<close> gave, and
  \<^verbatim>\<open>base, quote = pair\<close> raises ValueError unless it has two components. The local
  variable \<^verbatim>\<open>new_lines\<close> is \<open>None\<close> while unbound and keeps its value from one
  instrument to the next.
\<close>

fun main_loop ::
  "args \<Rightarrow> (int \<Rightarrow> bool) \<Rightarrow> string list list \<Rightarrow> int option \<Rightarrow> world \<Rightarrow> time_event list \<Rightarrow>
   net_event list \<Rightarrow> ((py_error + unit) \<times> world \<times> time_event list \<times> net_event list) option" where
  "main_loop a reached_today [] new_lines w ts ds = Some (Inr (), w, ts, ds)"
| "main_loop a reached_today (pair # all_pairs) new_lines w ts ds =
     (case pair of
        [base, quote] \<Rightarrow>
          (if arg_dtype a = ''candle'' then
             (case get_historical_candlesticks a reached_today base quote w ts ds of
                None \<Rightarrow> None
              | Some (Inl e, w', ts', ds') \<Rightarrow> Some (Inl e, w', ts', ds')
              | Some (Inr n, w', ts', ds') \<Rightarrow> main_loop a reached_today all_pairs (Some n) w' ts' ds')
           else if arg_dtype a = ''trade'' then
             (case get_historical_agg_trades a base quote w ts ds of
                None \<Rightarrow> None
              | Some (Inl e, w', ts', ds') \<Rightarrow> Some (Inl e, w', ts', ds')
              | Some (Inr n, w', ts', ds') \<Rightarrow> main_loop a reached_today all_pairs (Some n) w' ts' ds')
           else
             (case new_lines of
                None \<Rightarrow> Some (Inl (UnboundLocalError ''new_lines''), w, ts, ds)
              | Some n \<Rightarrow> main_loop a reached_today all_pairs (Some n) w ts ds))
      | _ \<Rightarrow> Some (Inl ValueError, w, ts, ds))"

text \<open>
  \<^verbatim>\<open>main\<close> up to the end of the loop over the instruments (lines 335 to 376), given
  the shuffled list of pairs. The clean-up and the upload after the loop are left out.
\<close>

definition main :: "args \<Rightarrow> (int \<Rightarrow> bool) \<Rightarrow> string list list \<Rightarrow> world \<Rightarrow> time_event list \<Rightarrow>
   net_event list \<Rightarrow> ((py_error + unit) \<times> world \<times> time_event list \<times> net_event list) option" where
  "main a reached_today all_pairs w ts ds = main_loop a reached_today all_pairs None w ts ds"

text \<open>
  An instance of the date test of the candle driver: today starts at \<open>midnight\<close>, in
  milliseconds since the epoch.
\<close>

definition on_or_after :: "int \<Rightarrow> int \<Rightarrow> bool" where
  "on_or_after midnight t = (midnight \<le> t)"

text \<open>
  A page of 1000 trades, with the ids from \<open>1000 * n\<close> to \<open>1000 * n + 999\<close>.
\<close>

definition thousand_trades :: "int \<Rightarrow> page" where
  "thousand_trades n = map (\<lambda>i. \<lparr>cursor_key = i, event_time = i\<rparr>) [1000 * n .. 1000 * n + 999]"

text \<open>
  The world before a run: no file, and room for 900 nested calls under the default
  recursion limit of 1000.
\<close>

definition empty_world :: world where
  "empty_world = \<lparr>sent = [], time_calls = 0, slept = 0, files = [], csv_appends = [],
     parquet_files = [], stack_room = 900\<rparr>"

section \<open>Notions used in the statements\<close>

text \<open>
  \<open>signed_from s p p'\<close>: the dict \<open>p'\<close> is \<open>p\<close> with the two entries of the signing
  path stored in it.
\<close>

definition signed_from :: "string \<Rightarrow> params \<Rightarrow> params \<Rightarrow> bool" where
  "signed_from s p p' \<longleftrightarrow>
     map_of p' ''signiature'' = Some (HashV s) \<and>
     (\<exists>t. map_of p' ''timestamp'' = Some (IntV t)) \<and>
     (\<forall>name. name \<noteq> ''signiature'' \<and> name \<noteq> ''timestamp'' \<longrightarrow> map_of p' name = map_of p name)"



section \<open>Properties of get_batch\<close>

lemma try_block_unconfigured:
  "key = None \<or> secret = None \<Longrightarrow>
   try_block key secret params api_path w ts ds = requests_get api_path params None w ts ds"
  by (auto simp: try_block_def split: option.splits)

lemma get_batch_Response:
  "key = None \<or> secret = None \<Longrightarrow>
   get_batch room key secret params api_path w ts (Response status body # ds) =
     Some (Inr (if status = 200 then body else []), params,
           w\<lparr>sent := sent w @ [(api_path, params, None)]\<rparr>, ts, ds)"
  by (simp add: get_batch.simps try_block_unconfigured requests_get_def)

lemma get_batch_Raise:
  "key = None \<or> secret = None \<Longrightarrow> transient x \<Longrightarrow> 0 < room \<Longrightarrow>
   get_batch room key secret params api_path w ts (Raise x # ds) =
     get_batch (room - 1) key secret params api_path
       (cool_down (w\<lparr>sent := sent w @ [(api_path, params, None)]\<rparr>)) ts ds"
  by (rule get_batch_retry) (simp_all add: try_block_unconfigured requests_get_def)

lemma get_batch_Nil:
  "key = None \<or> secret = None \<Longrightarrow> get_batch room key secret params api_path w ts [] = None"
  by (simp add: get_batch.simps try_block_unconfigured requests_get_def)

lemma get_batch_Raises:
  "key = None \<or> secret = None \<Longrightarrow> \<forall>x\<in>set xs. transient x \<Longrightarrow> length xs \<le> room \<Longrightarrow>
   get_batch room key secret params api_path w ts (map Raise xs @ ds) =
     get_batch (room - length xs) key secret params api_path
       (w\<lparr>sent := sent w @ replicate (length xs) (api_path, params, None),
          slept := slept w + 300 * length xs\<rparr>) ts ds"
proof (induction xs arbitrary: w room)
  case Nil
  then show ?case by simp
next
  case (Cons x xs)
  from Cons.prems have pos: "0 < room" and le: "length xs \<le> room - 1" and tr: "transient x"
    and all: "\<forall>x\<in>set xs. transient x"
    by auto
  have "get_batch room key secret params api_path w ts (map Raise (x # xs) @ ds) =
      get_batch (room - 1) key secret params api_path
       (cool_down (w\<lparr>sent := sent w @ [(api_path, params, None)]\<rparr>)) ts (map Raise xs @ ds)"
    using Cons.prems(1) tr pos by (simp add: get_batch_Raise)
  also have "\<dots> = get_batch (room - 1 - length xs) key secret params api_path
       (cool_down (w\<lparr>sent := sent w @ [(api_path, params, None)]\<rparr>)
          \<lparr>sent := sent (cool_down (w\<lparr>sent := sent w @ [(api_path, params, None)]\<rparr>)) @
                    replicate (length xs) (api_path, params, None),
           slept := slept (cool_down (w\<lparr>sent := sent w @ [(api_path, params, None)]\<rparr>)) +
                    300 * length xs\<rparr>) ts ds"
    by (rule Cons.IH [OF Cons.prems(1) all le])
  finally show ?case
    by (simp add: cool_down_def add.assoc)
qed

lemma get_batch_signed_Response:
  "get_batch room (Some k) (Some s) params api_path w (TimeJSON (Some t) # ts)
       (Response status body # ds) =
     Some (Inr (if status = 200 then body else []),
       AList.update ''timestamp'' (IntV t) (AList.update ''signiature'' (HashV s) params),
       get_time w\<lparr>sent := sent (get_time w) @
          [(api_path, AList.update ''timestamp'' (IntV t) (AList.update ''signiature'' (HashV s) params),
            Some k)]\<rparr>, ts, ds)"
  by (subst get_batch.simps) (auto simp: try_block_def requests_get_def)

text \<open>
  C7: every connection failure, connection reset and timeout is to be answered by a
  sleep of five minutes and another attempt, without end, and never to reach the caller.
  The code does so for \<^verbatim>\<open>requests.exceptions.ConnectionError\<close> and for
  \<^verbatim>\<open>requests.exceptions.Timeout\<close> only, and only while the recursion limit leaves
  room. A \<^verbatim>\<open>ConnectionResetError\<close> reaches the third \<^verbatim>\<open>except\<close> clause, which names
  an attribute that \<^verbatim>\<open>requests.exceptions\<close> does not have: \<^verbatim>\<open>get_batch\<close> raises
  AttributeError at once, without a sleep and without a second request. And with room
  for two nested calls, the third failure in a row ends the call with an error after
  three requests and 900 seconds of sleep, although the upstream would have answered the
  fourth request.
\<close>

theorem connection_reset_is_not_retried:
  "get_batch 900 None None [(''symbol'', StrV ''BTCUSDT'')] ''klines'' empty_world []
     [Raise ConnectionResetError, Response 200 [\<lparr>cursor_key = 7, event_time = 0\<rparr>]] =
     Some (Inl AttributeError, [(''symbol'', StrV ''BTCUSDT'')],
       \<lparr>sent = [(''klines'', [(''symbol'', StrV ''BTCUSDT'')], None)],
        time_calls = 0, slept = 0, files = [], csv_appends = [], parquet_files = [],
        stack_room = 900\<rparr>,
       [], [Response 200 [\<lparr>cursor_key = 7, event_time = 0\<rparr>]]) \<and>
   get_batch 2 None None [(''symbol'', StrV ''BTCUSDT'')] ''klines'' empty_world []
     [Raise ConnectionError, Raise Timeout, Raise ConnectionError,
      Response 200 [\<lparr>cursor_key = 7, event_time = 0\<rparr>]] =
     Some (Inl AttributeError, [(''symbol'', StrV ''BTCUSDT'')],
       \<lparr>sent = [(''klines'', [(''symbol'', StrV ''BTCUSDT'')], None),
                (''klines'', [(''symbol'', StrV ''BTCUSDT'')], None),
                (''klines'', [(''symbol'', StrV ''BTCUSDT'')], None)],
        time_calls = 0, slept = 900, files = [], csv_appends = [], parquet_files = [],
        stack_room = 900\<rparr>,
       [], [Response 200 [\<lparr>cursor_key = 7, event_time = 0\<rparr>]])"
  by code_simp

text \<open>
  C9: when \<^verbatim>\<open>--dtype\<close> is neither \<^verbatim>\<open>candle\<close> nor \<^verbatim>\<open>trade\<close>, nothing
  rejects it, and \<^verbatim>\<open>main\<close> raises UnboundLocalError for \<^verbatim>\<open>new_lines\<close> at the first
  instrument, before any request and any write.
\<close>

theorem invalid_dtype_raises_UnboundLocalError:
  assumes "arg_dtype a \<noteq> ''candle''" and "arg_dtype a \<noteq> ''trade''"
  shows "main a reached_today ([base, quote] # all_pairs) w ts ds =
           Some (Inl (UnboundLocalError ''new_lines''), w, ts, ds)"
  using assms by (simp add: main_def)

theorem invalid_dtype_raises_UnboundLocalError_witness:
  "arg_dtype \<lparr>arg_dtype = ''candles'', arg_interval = ''1m'', arg_limit = IntV 1000,
      arg_start_at = 0, arg_parquet = False\<rparr> \<noteq> ''candle'' \<and>
   arg_dtype \<lparr>arg_dtype = ''candles'', arg_interval = ''1m'', arg_limit = IntV 1000,
      arg_start_at = 0, arg_parquet = False\<rparr> \<noteq> ''trade'' \<and>
   main \<lparr>arg_dtype = ''candles'', arg_interval = ''1m'', arg_limit = IntV 1000,
      arg_start_at = 0, arg_parquet = False\<rparr> (\<lambda>t. False) [[''BTC'', ''USDT'']] empty_world [] [] =
     Some (Inl (UnboundLocalError ''new_lines''), empty_world, [], [])"
  using invalid_dtype_raises_UnboundLocalError
    [of "\<lparr>arg_dtype = ''candles'', arg_interval = ''1m'', arg_limit = IntV 1000,
      arg_start_at = 0, arg_parquet = False\<rparr>" "\<lambda>t. False" "''BTC''" "''USDT''" "[]" empty_world "[]" "[]"]
  by simp

section \<open>Properties of the drivers\<close>

lemma trade_loop_exit:
  "\<not> num_ne previous_id last_id \<or> (num_ge previous_id last_id \<and> num_gt0 previous_id) \<Longrightarrow>
   all_trade_to_csv_loop key secret filepath previous_id last_id params batches df w ts ds =
     Some (Inr (params, batches, df), w, ts, ds)"
  by (subst all_trade_to_csv_loop.simps) auto


lemma trade_loop_empty_page:
  assumes "num_ne previous_id last_id" and "\<not> (num_ge previous_id last_id \<and> num_gt0 previous_id)"
    and "get_batch (stack_room w) key secret params ''aggTrades'' w ts ds =
           Some (Inr [], params', w', ts', ds')"
  shows "all_trade_to_csv_loop key secret filepath previous_id last_id params batches df w ts ds =
           Some (Inr (params', batches, df), w', ts', ds')"
  using assms by (subst all_trade_to_csv_loop.simps) auto

lemma candle_loop_stale_page:
  assumes "\<not> unchanged previous_timestamp last_timestamp"
    and "num_value last_timestamp = Some t" and "\<not> reached_today t"
    and "get_batch (stack_room w) key secret
           (AList.update ''startTime'' (NumV (add_one last_timestamp)) params)
           ''klines'' w ts ds = Some (Inr new_batch, params', w', ts', ds')"
    and "new_batch = [] \<or> max_key new_batch = t"
  shows "all_candle_to_csv_loop key secret reached_today filepath previous_timestamp last_timestamp
           params batches df w ts ds = Some (Inr (params', batches, df), w', ts', ds')"
  using assms by (subst all_candle_to_csv_loop.simps) auto

lemma candle_loop_empty_page:
  assumes "\<not> unchanged previous_timestamp last_timestamp"
    and "num_value last_timestamp = Some t" and "\<not> reached_today t"
    and "get_batch (stack_room w) key secret
           (AList.update ''startTime'' (NumV (add_one last_timestamp)) params)
           ''klines'' w ts ds = Some (Inr [], params', w', ts', ds')"
  shows "all_candle_to_csv_loop key secret reached_today filepath previous_timestamp last_timestamp
           params batches df w ts ds = Some (Inr (params', batches, df), w', ts', ds')"
  using assms by (intro candle_loop_stale_page) auto

text \<open>
  C6: a response whose status is not 200 makes \<^verbatim>\<open>get_batch\<close> return the empty
  DataFrame after that one request, without sleeping and without a second request, with
  and without credentials. A driver that is about to fetch then leaves its loop through
  the \<^verbatim>\<open>new_batch.empty\<close> test with its accumulator as it was: the loop ends
  normally, no error is reported.
\<close>

theorem non_200_ends_stream:
  assumes "status \<noteq> 200" and "key = None \<or> secret = None"
  shows "get_batch room key secret params api_path w ts (Response status body # ds) =
           Some (Inr [], params, w\<lparr>sent := sent w @ [(api_path, params, None)]\<rparr>, ts, ds) \<and>
         get_batch room (Some k) (Some s) params api_path w (TimeJSON (Some t) # ts)
             (Response status body # ds) =
           Some (Inr [],
             AList.update ''timestamp'' (IntV t) (AList.update ''signiature'' (HashV s) params),
             get_time w\<lparr>sent := sent (get_time w) @
               [(api_path,
                 AList.update ''timestamp'' (IntV t) (AList.update ''signiature'' (HashV s) params),
                 Some k)]\<rparr>, ts, ds) \<and>
         (num_ne previous_id last_id \<and> \<not> (num_ge previous_id last_id \<and> num_gt0 previous_id) \<longrightarrow>
            all_trade_to_csv_loop key secret filepath previous_id last_id params batches df w ts
                (Response status body # ds) =
              Some (Inr (params, batches, df),
                w\<lparr>sent := sent w @ [(''aggTrades'', params, None)]\<rparr>, ts, ds)) \<and>
         (\<not> unchanged previous_timestamp last_timestamp \<and>
          num_value last_timestamp = Some time \<and> \<not> reached_today time \<longrightarrow>
            all_candle_to_csv_loop key secret reached_today filepath previous_timestamp
                last_timestamp params batches df w ts (Response status body # ds) =
              Some (Inr (AList.update ''startTime'' (NumV (add_one last_timestamp)) params,
                         batches, df),
                w\<lparr>sent := sent w @
                  [(''klines'', AList.update ''startTime'' (NumV (add_one last_timestamp)) params,
                    None)]\<rparr>,
                ts, ds))"
proof (intro conjI impI)
  from assms show "get_batch room key secret params api_path w ts (Response status body # ds) =
      Some (Inr [], params, w\<lparr>sent := sent w @ [(api_path, params, None)]\<rparr>, ts, ds)"
    by (simp add: get_batch_Response)
next
  from assms show "get_batch room (Some k) (Some s) params api_path w (TimeJSON (Some t) # ts)
             (Response status body # ds) =
           Some (Inr [],
             AList.update ''timestamp'' (IntV t) (AList.update ''signiature'' (HashV s) params),
             get_time w\<lparr>sent := sent (get_time w) @
               [(api_path,
                 AList.update ''timestamp'' (IntV t) (AList.update ''signiature'' (HashV s) params),
                 Some k)]\<rparr>, ts, ds)"
    by (simp add: get_batch_signed_Response)
next
  assume "num_ne previous_id last_id \<and> \<not> (num_ge previous_id last_id \<and> num_gt0 previous_id)"
  with assms show "all_trade_to_csv_loop key secret filepath previous_id last_id params batches df
      w ts (Response status body # ds) =
      Some (Inr (params, batches, df), w\<lparr>sent := sent w @ [(''aggTrades'', params, None)]\<rparr>, ts, ds)"
    by (intro trade_loop_empty_page) (simp_all add: get_batch_Response)
next
  assume "\<not> unchanged previous_timestamp last_timestamp \<and>
          num_value last_timestamp = Some time \<and> \<not> reached_today time"
  with assms show "all_candle_to_csv_loop key secret reached_today filepath previous_timestamp
      last_timestamp params batches df w ts (Response status body # ds) =
      Some (Inr (AList.update ''startTime'' (NumV (add_one last_timestamp)) params, batches, df),
        w\<lparr>sent := sent w @
          [(''klines'', AList.update ''startTime'' (NumV (add_one last_timestamp)) params, None)]\<rparr>,
        ts, ds)"
    by (intro candle_loop_empty_page [where t = time]) (simp_all add: get_batch_Response)
qed

theorem non_200_ends_stream_witness:
  "(404::int) \<noteq> 200 \<and>
   all_trade_to_csv_loop None None ''data/trade_BTC-USDT.csv'' (PyInt (- 1)) (PyInt 0)
       [(''symbol'', StrV ''BTCUSDT''), (''fromId'', IntV 0), (''limit'', IntV 1000)] [[]] None
       empty_world [] [Response 404 [\<lparr>cursor_key = 3, event_time = 0\<rparr>]] =
     Some (Inr ([(''symbol'', StrV ''BTCUSDT''), (''fromId'', IntV 0), (''limit'', IntV 1000)], [[]], None),
       \<lparr>sent = [(''aggTrades'',
           [(''symbol'', StrV ''BTCUSDT''), (''fromId'', IntV 0), (''limit'', IntV 1000)], None)],
        time_calls = 0, slept = 0, files = [], csv_appends = [], parquet_files = [],
        stack_room = 900\<rparr>, [], [])"
proof -
  have st: "(404::int) \<noteq> 200" and un: "(None :: string option) = None \<or> (None :: string option) = None"
    by simp_all
  have run: "num_ne (PyInt (- 1)) (PyInt 0) \<and> \<not> (num_ge (PyInt (- 1)) (PyInt 0) \<and> num_gt0 (PyInt (- 1)))"
    by (simp add: num_ne_def num_ge_def num_gt0_def)
  from non_200_ends_stream [OF st un, THEN conjunct2, THEN conjunct2, THEN conjunct1, rule_format,
      OF run, of "''data/trade_BTC-USDT.csv''"
        "[(''symbol'', StrV ''BTCUSDT''), (''fromId'', IntV 0), (''limit'', IntV 1000)]" "[[]]" None
        empty_world "[]" "[\<lparr>cursor_key = 3, event_time = 0\<rparr>]" "[]"]
  show ?thesis by (simp add: empty_world_def)
qed

section \<open>The parquet block\<close>

lemma after_loop_parquet:
  "after_loop base quote filepath True old_lines batches df w =
     (if 1 < length batches \<or> df \<noteq> None then
        (Inl (NameError ''data_type''),
         write_raw_to_parquet (if 1 < length batches then prepare_df batches else the df)
           (''compressed/'' @ base @ ''-'' @ quote @ ''.parquet'') w)
      else (Inl (UnboundLocalError ''df''), w))"
  by (auto simp: after_loop_def Let_def split: option.splits)

lemma after_loop_parquet_fst:
  "fst (after_loop base quote filepath True old_lines batches df w) =
     Inl (if 1 < length batches \<or> df \<noteq> None then NameError ''data_type''
          else UnboundLocalError ''df'')"
  by (simp add: after_loop_parquet)

lemma all_trade_to_csv_after_loop:
  assumes "trade_resume (trade_filepath base quote) params w = Inr (last_id, params1)"
    and "all_trade_to_csv_loop key secret (trade_filepath base quote) (PyInt (- 1)) last_id params1
           [[]] None w ts ds = Some (Inr (params', batches', df), w1, ts1, ds1)"
  shows "all_trade_to_csv key secret base quote params with_parquet w ts ds =
     Some (fst (after_loop base quote (trade_filepath base quote) with_parquet 0 batches' df w1),
           snd (after_loop base quote (trade_filepath base quote) with_parquet 0 batches' df w1),
           ts1, ds1)"
  using assms by (simp add: all_trade_to_csv_def case_prod_beta Let_def)

lemma all_candle_to_csv_after_loop:
  assumes "candle_resume (candle_filepath base quote interval) params w = Inr (batches, last_timestamp)"
    and "all_candle_to_csv_loop key secret reached_today (candle_filepath base quote interval) None
           last_timestamp params batches None w ts ds = Some (Inr (params', batches', df), w1, ts1, ds1)"
  shows "all_candle_to_csv key secret reached_today base quote params interval with_parquet w ts ds =
     Some (fst (after_loop base quote (candle_filepath base quote interval) with_parquet
                  (int (length (last batches))) batches' df w1),
           snd (after_loop base quote (candle_filepath base quote interval) with_parquet
                  (int (length (last batches))) batches' df w1),
           ts1, ds1)"
  using assms by (simp add: all_candle_to_csv_def case_prod_beta Let_def)

lemma all_trade_to_csv_cases:
  assumes "all_trade_to_csv key secret base quote params with_parquet w ts ds = Some (r, w', ts', ds')"
  obtains (resume) e where "trade_resume (trade_filepath base quote) params w = Inl e"
      "r = Inl e" "w' = w"
    | (loop) last_id params1 e where
      "trade_resume (trade_filepath base quote) params w = Inr (last_id, params1)"
      "all_trade_to_csv_loop key secret (trade_filepath base quote) (PyInt (- 1)) last_id params1
         [[]] None w ts ds = Some (Inl e, w', ts', ds')" "r = Inl e"
    | (after) last_id params1 params' batches' df w1 where
      "trade_resume (trade_filepath base quote) params w = Inr (last_id, params1)"
      "all_trade_to_csv_loop key secret (trade_filepath base quote) (PyInt (- 1)) last_id params1
         [[]] None w ts ds = Some (Inr (params', batches', df), w1, ts', ds')"
      "r = fst (after_loop base quote (trade_filepath base quote) with_parquet 0 batches' df w1)"
      "w' = snd (after_loop base quote (trade_filepath base quote) with_parquet 0 batches' df w1)"
proof (cases "trade_resume (trade_filepath base quote) params w")
  case (Inl e)
  with assms have "r = Inl e" "w' = w" by (auto simp: all_trade_to_csv_def)
  with Inl show ?thesis by (rule resume)
next
  case (Inr p)
  obtain last_id params1 where p: "p = (last_id, params1)" by (cases p)
  note res = Inr [unfolded p]
  show ?thesis
  proof (cases "all_trade_to_csv_loop key secret (trade_filepath base quote)
      (PyInt (- 1)) last_id params1 [[]] None w ts ds")
    case None
    with assms res show ?thesis by (auto simp: all_trade_to_csv_def)
  next
    case (Some q)
    obtain res1 w1 ts1 ds1 where q: "q = (res1, w1, ts1, ds1)" by (cases q)
    note lp = Some [unfolded q]
    show ?thesis
    proof (cases res1)
      case (Inl e)
      with assms res lp have "r = Inl e" "w' = w1" "ts' = ts1" "ds' = ds1"
        by (auto simp: all_trade_to_csv_def)
      with res lp Inl show ?thesis by (intro loop [of last_id params1 e]) auto
    next
      case (Inr st)
      obtain params' batches' df where st: "st = (params', batches', df)" by (cases st)
      from all_trade_to_csv_after_loop [OF res lp [unfolded Inr st], of with_parquet] assms
      have "r = fst (after_loop base quote (trade_filepath base quote) with_parquet 0 batches' df w1)"
        "w' = snd (after_loop base quote (trade_filepath base quote) with_parquet 0 batches' df w1)"
        "ts' = ts1" "ds' = ds1"
        by auto
      with res lp Inr st show ?thesis by (intro after [of last_id params1 params' batches' df w1]) auto
    qed
  qed
qed

lemma all_candle_to_csv_cases:
  assumes "all_candle_to_csv key secret reached_today base quote params interval with_parquet w ts ds =
     Some (r, w', ts', ds')"
  obtains (resume) e where "candle_resume (candle_filepath base quote interval) params w = Inl e"
      "r = Inl e" "w' = w"
    | (loop) batches last_timestamp e where
      "candle_resume (candle_filepath base quote interval) params w = Inr (batches, last_timestamp)"
      "all_candle_to_csv_loop key secret reached_today (candle_filepath base quote interval) None
         last_timestamp params batches None w ts ds = Some (Inl e, w', ts', ds')" "r = Inl e"
    | (after) batches last_timestamp params' batches' df w1 where
      "candle_resume (candle_filepath base quote interval) params w = Inr (batches, last_timestamp)"
      "all_candle_to_csv_loop key secret reached_today (candle_filepath base quote interval) None
         last_timestamp params batches None w ts ds = Some (Inr (params', batches', df), w1, ts', ds')"
      "r = fst (after_loop base quote (candle_filepath base quote interval) with_parquet
                  (int (length (last batches))) batches' df w1)"
      "w' = snd (after_loop base quote (candle_filepath base quote interval) with_parquet
                  (int (length (last batches))) batches' df w1)"
proof (cases "candle_resume (candle_filepath base quote interval) params w")
  case (Inl e)
  with assms have "r = Inl e" "w' = w" by (auto simp: all_candle_to_csv_def)
  with Inl show ?thesis by (rule resume)
next
  case (Inr p)
  obtain batches last_timestamp where p: "p = (batches, last_timestamp)" by (cases p)
  note res = Inr [unfolded p]
  show ?thesis
  proof (cases "all_candle_to_csv_loop key secret reached_today
      (candle_filepath base quote interval) None last_timestamp params batches None w ts ds")
    case None
    with assms res show ?thesis by (auto simp: all_candle_to_csv_def)
  next
    case (Some q)
    obtain res1 w1 ts1 ds1 where q: "q = (res1, w1, ts1, ds1)" by (cases q)
    note lp = Some [unfolded q]
    show ?thesis
    proof (cases res1)
      case (Inl e)
      with assms res lp have "r = Inl e" "w' = w1" "ts' = ts1" "ds' = ds1"
        by (auto simp: all_candle_to_csv_def)
      with res lp Inl show ?thesis by (intro loop [of batches last_timestamp e]) auto
    next
      case (Inr st)
      obtain params' batches' df where st: "st = (params', batches', df)" by (cases st)
      from all_candle_to_csv_after_loop [OF res lp [unfolded Inr st], of with_parquet] assms
      have "r = fst (after_loop base quote (candle_filepath base quote interval) with_parquet
                  (int (length (last batches))) batches' df w1)"
        "w' = snd (after_loop base quote (candle_filepath base quote interval) with_parquet
                  (int (length (last batches))) batches' df w1)"
        "ts' = ts1" "ds' = ds1"
        by auto
      with res lp Inr st show ?thesis
        by (intro after [of batches last_timestamp params' batches' df w1]) auto
    qed
  qed
qed

lemma all_trade_to_csv_parquet:
  assumes "all_trade_to_csv key secret base quote params True w ts ds = Some (r, w', ts', ds')"
  shows "\<exists>e. r = Inl e"
  using assms by (cases rule: all_trade_to_csv_cases) (auto simp: after_loop_parquet_fst)

lemma all_candle_to_csv_parquet:
  assumes "all_candle_to_csv key secret reached_today base quote params interval True w ts ds =
     Some (r, w', ts', ds')"
  shows "\<exists>e. r = Inl e"
  using assms by (cases rule: all_candle_to_csv_cases) (auto simp: after_loop_parquet_fst)

text \<open>
  C8: with the parquet flag set neither driver completes. A run in which the start and
  the loop of a driver raise nothing comes to the parquet block, and there the driver
  raises NameError: UnboundLocalError for \<^verbatim>\<open>df\<close> when no table was ever built (no
  flush in the loop and at most one element in the accumulator, as when no page was
  gathered), and otherwise NameError for \<^verbatim>\<open>data_type\<close>, which no scope defines, as soon
  as the description is formatted, after the parquet file was written. So a run of
  either driver that returns, returns an error and never a count.
\<close>

theorem parquet_path_raises_NameError:
  "(trade_resume (trade_filepath base quote) params w = Inr (last_id, params1) \<and>
    all_trade_to_csv_loop key secret (trade_filepath base quote) (PyInt (- 1)) last_id params1
      [[]] None w ts ds = Some (Inr (params', batches', df), w1, ts1, ds1) \<longrightarrow>
    all_trade_to_csv key secret base quote params True w ts ds =
      (if 1 < length batches' \<or> df \<noteq> None then
         Some (Inl (NameError ''data_type''),
               write_raw_to_parquet (if 1 < length batches' then prepare_df batches' else the df)
                 (''compressed/'' @ base @ ''-'' @ quote @ ''.parquet'') w1, ts1, ds1)
       else Some (Inl (UnboundLocalError ''df''), w1, ts1, ds1))) \<and>
   (candle_resume (candle_filepath base quote interval) params2 w = Inr (batches, last_timestamp) \<and>
    all_candle_to_csv_loop key secret reached_today (candle_filepath base quote interval) None
      last_timestamp params2 batches None w ts ds = Some (Inr (params3, batches3, df3), w3, ts3, ds3) \<longrightarrow>
    all_candle_to_csv key secret reached_today base quote params2 interval True w ts ds =
      (if 1 < length batches3 \<or> df3 \<noteq> None then
         Some (Inl (NameError ''data_type''),
               write_raw_to_parquet (if 1 < length batches3 then prepare_df batches3 else the df3)
                 (''compressed/'' @ base @ ''-'' @ quote @ ''.parquet'') w3, ts3, ds3)
       else Some (Inl (UnboundLocalError ''df''), w3, ts3, ds3))) \<and>
   (all_trade_to_csv key secret base quote params True w ts ds = Some (r, w', ts', ds') \<longrightarrow>
      (\<exists>e. r = Inl e)) \<and>
   (all_candle_to_csv key secret reached_today base quote params2 interval True w ts ds =
      Some (r2, w2, ts2, ds2) \<longrightarrow> (\<exists>e. r2 = Inl e))"
proof (intro conjI impI)
  assume a: "trade_resume (trade_filepath base quote) params w = Inr (last_id, params1) \<and>
    all_trade_to_csv_loop key secret (trade_filepath base quote) (PyInt (- 1)) last_id params1
      [[]] None w ts ds = Some (Inr (params', batches', df), w1, ts1, ds1)"
  show "all_trade_to_csv key secret base quote params True w ts ds =
      (if 1 < length batches' \<or> df \<noteq> None then
         Some (Inl (NameError ''data_type''),
               write_raw_to_parquet (if 1 < length batches' then prepare_df batches' else the df)
                 (''compressed/'' @ base @ ''-'' @ quote @ ''.parquet'') w1, ts1, ds1)
       else Some (Inl (UnboundLocalError ''df''), w1, ts1, ds1))"
    using all_trade_to_csv_after_loop [OF conjunct1 [OF a] conjunct2 [OF a], of True]
    by (simp add: after_loop_parquet)
next
  assume a: "candle_resume (candle_filepath base quote interval) params2 w =
      Inr (batches, last_timestamp) \<and>
    all_candle_to_csv_loop key secret reached_today (candle_filepath base quote interval) None
      last_timestamp params2 batches None w ts ds = Some (Inr (params3, batches3, df3), w3, ts3, ds3)"
  show "all_candle_to_csv key secret reached_today base quote params2 interval True w ts ds =
      (if 1 < length batches3 \<or> df3 \<noteq> None then
         Some (Inl (NameError ''data_type''),
               write_raw_to_parquet (if 1 < length batches3 then prepare_df batches3 else the df3)
                 (''compressed/'' @ base @ ''-'' @ quote @ ''.parquet'') w3, ts3, ds3)
       else Some (Inl (UnboundLocalError ''df''), w3, ts3, ds3))"
    using all_candle_to_csv_after_loop [OF conjunct1 [OF a] conjunct2 [OF a], of True]
    by (simp add: after_loop_parquet)
next
  assume "all_trade_to_csv key secret base quote params True w ts ds = Some (r, w', ts', ds')"
  then show "\<exists>e. r = Inl e" by (rule all_trade_to_csv_parquet)
next
  assume "all_candle_to_csv key secret reached_today base quote params2 interval True w ts ds =
      Some (r2, w2, ts2, ds2)"
  then show "\<exists>e. r2 = Inl e" by (rule all_candle_to_csv_parquet)
qed

theorem parquet_path_raises_NameError_witness:
  "all_trade_to_csv None None ''BTC'' ''USDT''
       [(''symbol'', StrV ''BTCUSDT''), (''fromId'', IntV 0), (''limit'', IntV 1000)] True
       empty_world [] [Response 200 []] =
     Some (Inl (UnboundLocalError ''df''),
       \<lparr>sent = [(''aggTrades'',
           [(''symbol'', StrV ''BTCUSDT''), (''fromId'', IntV 0), (''limit'', IntV 1000)], None)],
        time_calls = 0, slept = 0, files = [], csv_appends = [], parquet_files = [],
        stack_room = 900\<rparr>, [], []) \<and>
   all_candle_to_csv None None (on_or_after 1000) ''BTC'' ''USDT''
       [(''symbol'', StrV ''BTCUSDT''), (''interval'', StrV ''1m''), (''startTime'', IntV 5),
        (''limit'', IntV 1000)] ''1m'' True
       empty_world [] [Response 200 [\<lparr>cursor_key = 7, event_time = 0\<rparr>], Response 200 []] =
     Some (Inl (NameError ''data_type''),
       \<lparr>sent = [(''klines'',
           [(''symbol'', StrV ''BTCUSDT''), (''interval'', StrV ''1m''), (''startTime'', IntV 6),
            (''limit'', IntV 1000)], None),
          (''klines'',
           [(''symbol'', StrV ''BTCUSDT''), (''interval'', StrV ''1m''),
            (''startTime'', NumV (Int64 8)), (''limit'', IntV 1000)], None)],
        time_calls = 0, slept = 0, files = [], csv_appends = [],
        parquet_files = [(''compressed/BTC-USDT.parquet'', [\<lparr>cursor_key = 7, event_time = 0\<rparr>])],
        stack_room = 900\<rparr>, [], [])"
proof -
  have r1: "trade_resume (trade_filepath ''BTC'' ''USDT'')
      [(''symbol'', StrV ''BTCUSDT''), (''fromId'', IntV 0), (''limit'', IntV 1000)] empty_world =
      Inr (PyInt 0, [(''symbol'', StrV ''BTCUSDT''), (''fromId'', IntV 0), (''limit'', IntV 1000)])"
    by code_simp
  have l1: "all_trade_to_csv_loop None None (trade_filepath ''BTC'' ''USDT'') (PyInt (- 1)) (PyInt 0)
      [(''symbol'', StrV ''BTCUSDT''), (''fromId'', IntV 0), (''limit'', IntV 1000)] [[]] None
      empty_world [] [Response 200 []] =
      Some (Inr ([(''symbol'', StrV ''BTCUSDT''), (''fromId'', IntV 0), (''limit'', IntV 1000)],
                 [[]], None),
        \<lparr>sent = [(''aggTrades'',
           [(''symbol'', StrV ''BTCUSDT''), (''fromId'', IntV 0), (''limit'', IntV 1000)], None)],
         time_calls = 0, slept = 0, files = [], csv_appends = [], parquet_files = [],
         stack_room = 900\<rparr>, [], [])"
    by code_simp
  have r2: "candle_resume (candle_filepath ''BTC'' ''USDT'' ''1m'')
      [(''symbol'', StrV ''BTCUSDT''), (''interval'', StrV ''1m''), (''startTime'', IntV 5),
       (''limit'', IntV 1000)] empty_world = Inr ([[]], PyInt 5)"
    by code_simp
  have l2: "all_candle_to_csv_loop None None (on_or_after 1000) (candle_filepath ''BTC'' ''USDT'' ''1m'')
      None (PyInt 5)
      [(''symbol'', StrV ''BTCUSDT''), (''interval'', StrV ''1m''), (''startTime'', IntV 5),
       (''limit'', IntV 1000)] [[]] None empty_world []
      [Response 200 [\<lparr>cursor_key = 7, event_time = 0\<rparr>], Response 200 []] =
      Some (Inr ([(''symbol'', StrV ''BTCUSDT''), (''interval'', StrV ''1m''),
                  (''startTime'', NumV (Int64 8)), (''limit'', IntV 1000)],
                 [[], [\<lparr>cursor_key = 7, event_time = 0\<rparr>]], None),
        \<lparr>sent = [(''klines'',
           [(''symbol'', StrV ''BTCUSDT''), (''interval'', StrV ''1m''), (''startTime'', IntV 6),
            (''limit'', IntV 1000)], None),
          (''klines'',
           [(''symbol'', StrV ''BTCUSDT''), (''interval'', StrV ''1m''),
            (''startTime'', NumV (Int64 8)), (''limit'', IntV 1000)], None)],
         time_calls = 0, slept = 0, files = [], csv_appends = [], parquet_files = [],
         stack_room = 900\<rparr>, [], [])"
    by code_simp
  have p: "prepare_df [[], [\<lparr>cursor_key = 7, event_time = 0\<rparr>]] = [\<lparr>cursor_key = 7, event_time = 0\<rparr>]"
    by code_simp
  from parquet_path_raises_NameError [THEN conjunct1, rule_format, OF conjI [OF r1 l1]]
  have t: "all_trade_to_csv None None ''BTC'' ''USDT''
       [(''symbol'', StrV ''BTCUSDT''), (''fromId'', IntV 0), (''limit'', IntV 1000)] True
       empty_world [] [Response 200 []] =
     Some (Inl (UnboundLocalError ''df''),
       \<lparr>sent = [(''aggTrades'',
           [(''symbol'', StrV ''BTCUSDT''), (''fromId'', IntV 0), (''limit'', IntV 1000)], None)],
        time_calls = 0, slept = 0, files = [], csv_appends = [], parquet_files = [],
        stack_room = 900\<rparr>, [], [])"
    by simp
  from parquet_path_raises_NameError [THEN conjunct2, THEN conjunct1, rule_format, OF conjI [OF r2 l2]]
  have c: "all_candle_to_csv None None (on_or_after 1000) ''BTC'' ''USDT''
       [(''symbol'', StrV ''BTCUSDT''), (''interval'', StrV ''1m''), (''startTime'', IntV 5),
        (''limit'', IntV 1000)] ''1m'' True
       empty_world [] [Response 200 [\<lparr>cursor_key = 7, event_time = 0\<rparr>], Response 200 []] =
     Some (Inl (NameError ''data_type''),
       \<lparr>sent = [(''klines'',
           [(''symbol'', StrV ''BTCUSDT''), (''interval'', StrV ''1m''), (''startTime'', IntV 6),
            (''limit'', IntV 1000)], None),
          (''klines'',
           [(''symbol'', StrV ''BTCUSDT''), (''interval'', StrV ''1m''),
            (''startTime'', NumV (Int64 8)), (''limit'', IntV 1000)], None)],
        time_calls = 0, slept = 0, files = [], csv_appends = [],
        parquet_files = [(''compressed/BTC-USDT.parquet'', [\<lparr>cursor_key = 7, event_time = 0\<rparr>])],
        stack_room = 900\<rparr>, [], [])"
    by (simp add: p write_raw_to_parquet_def)
  from t c show ?thesis by (rule conjI)
qed

section \<open>Request signing\<close>

lemma signed_from_sign:
  "signed_from s p (AList.update ''timestamp'' (IntV t) (AList.update ''signiature'' (HashV s) p))"
  unfolding signed_from_def by (simp add: update_conv')

lemma signed_from_trans:
  "signed_from s (AList.update ''timestamp'' (IntV t) (AList.update ''signiature'' (HashV s) p)) p' \<Longrightarrow>
   signed_from s p p'"
  unfolding signed_from_def by (simp add: update_conv')

lemma requests_get_sent:
  "requests_get api_path p h w ts ds = Some (a, p1, w1, ts1, ds1) \<Longrightarrow>
   p1 = p \<and> sent w1 = sent w @ [(api_path, p, h)]"
  by (auto simp: requests_get_def split: list.splits net_event.splits)

lemma try_block_configured:
  assumes "try_block (Some k) (Some s) params api_path w ts ds = Some (a, p1, w1, ts1, ds1)"
  shows "(p1 = params \<and> (\<forall>status body. a \<noteq> Got status body)) \<or>
         (\<exists>t. p1 = AList.update ''timestamp'' (IntV t) (AList.update ''signiature'' (HashV s) params) \<and>
              sent w1 = sent w @ [(api_path, p1, Some k)])"
proof (cases ts)
  case Nil
  with assms show ?thesis by (simp add: try_block_def)
next
  case (Cons e ts')
  show ?thesis
  proof (cases e)
    case (TimeRaise x)
    with assms Cons show ?thesis by (auto simp: try_block_def)
  next
    case (TimeJSON opt)
    show ?thesis
    proof (cases opt)
      case None
      with assms Cons TimeJSON show ?thesis by (auto simp: try_block_def)
    next
      case (Some t)
      with assms Cons TimeJSON have
        "requests_get api_path
           (AList.update ''timestamp'' (IntV t) (AList.update ''signiature'' (HashV s) params))
           (Some k) (get_time w) ts' ds = Some (a, p1, w1, ts1, ds1)"
        by (simp add: try_block_def)
      from requests_get_sent [OF this] show ?thesis
        by (auto simp: get_time_def)
    qed
  qed
qed

lemma get_batch_signed:
  assumes "get_batch room (Some k) (Some s) params api_path w ts ds =
             Some (Inr new_batch, params', w', ts', ds')"
  shows "signed_from s params params' \<and> sent w' \<noteq> [] \<and> last (sent w') = (api_path, params', Some k)"
  using assms
proof (induction rule: get_batch_induct)
  case (retry room params w ts ds x p1 w1 ts1 ds1)
  note ih = retry(5)
  from try_block_configured [OF retry(1)] show ?case
  proof
    assume "p1 = params \<and> (\<forall>status body. Raised x \<noteq> Got status body)"
    with ih show ?thesis by simp
  next
    assume "\<exists>t. p1 = AList.update ''timestamp'' (IntV t) (AList.update ''signiature'' (HashV s) params) \<and>
              sent w1 = sent w @ [(api_path, p1, Some k)]"
    with ih signed_from_trans show ?thesis by blast
  qed
next
  case (got room params w ts ds status body p1 w1 ts1 ds1)
  from got(2) have eq: "params' = p1" "w' = w1" by simp_all
  from try_block_configured [OF got(1)] obtain t where
    "p1 = AList.update ''timestamp'' (IntV t) (AList.update ''signiature'' (HashV s) params)"
    "sent w1 = sent w @ [(api_path, p1, Some k)]"
    by auto
  with eq signed_from_sign show ?case by simp
qed simp_all

text \<open>
  C10: when both the key and the secret are set, a call of \<^verbatim>\<open>get_batch\<close> that returns
  a page has stored in the caller's \<^verbatim>\<open>params\<close> a \<^verbatim>\<open>signiature\<close> entry, the hash
  object of the secret, and a \<^verbatim>\<open>timestamp\<close> entry, and changed no other entry. The
  request that was answered carried both, and both stay in the dict when the caller then
  stores another entry such as the next cursor, so the next request built from the dict
  carries them too.
\<close>

theorem signing_mutates_params:
  assumes "get_batch room (Some k) (Some s) params api_path w ts ds =
             Some (Inr new_batch, params', w', ts', ds')"
  shows "map_of params' ''signiature'' = Some (HashV s) \<and>
         (\<exists>t. map_of params' ''timestamp'' = Some (IntV t)) \<and>
         (\<forall>name. name \<noteq> ''signiature'' \<and> name \<noteq> ''timestamp'' \<longrightarrow>
            map_of params' name = map_of params name) \<and>
         sent w' \<noteq> [] \<and> last (sent w') = (api_path, params', Some k) \<and>
         (\<forall>name v. name \<noteq> ''signiature'' \<and> name \<noteq> ''timestamp'' \<longrightarrow>
            map_of (AList.update name v params') ''signiature'' = Some (HashV s) \<and>
            map_of (AList.update name v params') ''timestamp'' = map_of params' ''timestamp'')"
proof -
  from get_batch_signed [OF assms]
  have sf: "signed_from s params params'"
    and snt: "sent w' \<noteq> []" "last (sent w') = (api_path, params', Some k)"
    by simp_all
  from sf have "\<forall>name v. name \<noteq> ''signiature'' \<and> name \<noteq> ''timestamp'' \<longrightarrow>
      map_of (AList.update name v params') ''signiature'' = Some (HashV s) \<and>
      map_of (AList.update name v params') ''timestamp'' = map_of params' ''timestamp''"
    unfolding signed_from_def by (auto simp: update_conv')
  with sf snt show ?thesis
    unfolding signed_from_def by blast
qed

theorem signing_mutates_params_witness:
  "get_batch 900 (Some ''key'') (Some ''secret'')
       [(''symbol'', StrV ''BTCUSDT''), (''fromId'', IntV 0), (''limit'', IntV 1000)] ''aggTrades''
       empty_world [TimeJSON (Some 1600000000000)] [Response 200 [\<lparr>cursor_key = 0, event_time = 5\<rparr>]] =
     Some (Inr [\<lparr>cursor_key = 0, event_time = 5\<rparr>],
       [(''symbol'', StrV ''BTCUSDT''), (''fromId'', IntV 0), (''limit'', IntV 1000),
        (''signiature'', HashV ''secret''), (''timestamp'', IntV 1600000000000)],
       \<lparr>sent = [(''aggTrades'',
           [(''symbol'', StrV ''BTCUSDT''), (''fromId'', IntV 0), (''limit'', IntV 1000),
            (''signiature'', HashV ''secret''), (''timestamp'', IntV 1600000000000)], Some ''key'')],
        time_calls = 1, slept = 0, files = [], csv_appends = [], parquet_files = [],
        stack_room = 900\<rparr>, [], []) \<and>
   map_of [(''symbol'', StrV ''BTCUSDT''), (''fromId'', IntV 0), (''limit'', IntV 1000),
        (''signiature'', HashV ''secret''), (''timestamp'', IntV 1600000000000)] ''signiature'' =
     Some (HashV ''secret'')"
proof -
  have run: "get_batch 900 (Some ''key'') (Some ''secret'')
       [(''symbol'', StrV ''BTCUSDT''), (''fromId'', IntV 0), (''limit'', IntV 1000)] ''aggTrades''
       empty_world [TimeJSON (Some 1600000000000)] [Response 200 [\<lparr>cursor_key = 0, event_time = 5\<rparr>]] =
     Some (Inr [\<lparr>cursor_key = 0, event_time = 5\<rparr>],
       [(''symbol'', StrV ''BTCUSDT''), (''fromId'', IntV 0), (''limit'', IntV 1000),
        (''signiature'', HashV ''secret''), (''timestamp'', IntV 1600000000000)],
       \<lparr>sent = [(''aggTrades'',
           [(''symbol'', StrV ''BTCUSDT''), (''fromId'', IntV 0), (''limit'', IntV 1000),
            (''signiature'', HashV ''secret''), (''timestamp'', IntV 1600000000000)], Some ''key'')],
        time_calls = 1, slept = 0, files = [], csv_appends = [], parquet_files = [],
        stack_room = 900\<rparr>, [], [])"
    by code_simp
  from signing_mutates_params [OF run] run show ?thesis by blast
qed

section \<open>Flushing and counting\<close>

text \<open>
  C1: at exhaustion every page appended since the last flush is to be flushed. The code
  tests \<^verbatim>\<open>len(batches) > 1\<close>, which counts the first element that the accumulator has
  at the start of a run; after a flush in the loop \<^verbatim>\<open>batches.clear()\<close> has removed
  it. On a new instrument with the default limit 1000 and five pages followed by an empty
  one, the loop flushes the first four pages, appends the fifth, and the run ends
  without writing it: one call of \<^verbatim>\<open>pp.append_to_csv\<close>, the row of the fifth page in
  no file, and 0 reported.
\<close>

theorem final_flush_skips_single_pending_page:
  "all_trade_to_csv None None ''BTC'' ''USDT''
       [(''symbol'', StrV ''BTCUSDT''), (''fromId'', IntV 0), (''limit'', IntV 1000)] False
       empty_world []
       [Response 200 [\<lparr>cursor_key = 1, event_time = 0\<rparr>],
        Response 200 [\<lparr>cursor_key = 2, event_time = 0\<rparr>],
        Response 200 [\<lparr>cursor_key = 3, event_time = 0\<rparr>],
        Response 200 [\<lparr>cursor_key = 4, event_time = 0\<rparr>],
        Response 200 [\<lparr>cursor_key = 5, event_time = 0\<rparr>],
        Response 200 []] =
     Some (Inr 0,
       \<lparr>sent = (''aggTrades'',
                 [(''symbol'', StrV ''BTCUSDT''), (''fromId'', IntV 0), (''limit'', IntV 1000)], None) #
               map (\<lambda>i. (''aggTrades'',
                 [(''symbol'', StrV ''BTCUSDT''), (''fromId'', NumV (Int64 i)), (''limit'', IntV 1000)], None))
               [2, 3, 4, 5, 6],
        time_calls = 0, slept = 0,
        files = [(''data/trade_BTC-USDT.csv'',
                  [\<lparr>cursor_key = 1, event_time = 0\<rparr>, \<lparr>cursor_key = 2, event_time = 0\<rparr>,
                   \<lparr>cursor_key = 3, event_time = 0\<rparr>, \<lparr>cursor_key = 4, event_time = 0\<rparr>])],
        csv_appends = [(''data/trade_BTC-USDT.csv'',
                  [\<lparr>cursor_key = 1, event_time = 0\<rparr>, \<lparr>cursor_key = 2, event_time = 0\<rparr>,
                   \<lparr>cursor_key = 3, event_time = 0\<rparr>, \<lparr>cursor_key = 4, event_time = 0\<rparr>])],
        parquet_files = [], stack_room = 900\<rparr>, [], [])"
  by code_simp

text \<open>
  C5: the count returned is to be the number of rows added beyond those on disk at the
  start, never negative. The code returns \<^verbatim>\<open>len(df.index) - old_lines\<close> for the table
  of the last flush only. With three candles on disk, limit 1000 and six pages of one
  candle each, the loop flushes after the fourth page, the last two pages make a table of
  two rows, and the run returns \<open>2 - 3\<close>.
\<close>

theorem new_row_count_negative_after_flush:
  "map_option fst
     (all_candle_to_csv None None (\<lambda>t. False) ''BTC'' ''USDT''
       [(''symbol'', StrV ''BTCUSDT''), (''interval'', StrV ''1m''), (''startTime'', IntV 0),
        (''limit'', IntV 1000)] ''1m'' False
       (empty_world\<lparr>files := [(''data/candle_BTC-USDT_interval-1m.csv'',
          [\<lparr>cursor_key = 1, event_time = 0\<rparr>, \<lparr>cursor_key = 2, event_time = 0\<rparr>,
           \<lparr>cursor_key = 3, event_time = 0\<rparr>])]\<rparr>) []
       [Response 200 [\<lparr>cursor_key = 4, event_time = 0\<rparr>],
        Response 200 [\<lparr>cursor_key = 5, event_time = 0\<rparr>],
        Response 200 [\<lparr>cursor_key = 6, event_time = 0\<rparr>],
        Response 200 [\<lparr>cursor_key = 7, event_time = 0\<rparr>],
        Response 200 [\<lparr>cursor_key = 8, event_time = 0\<rparr>],
        Response 200 [\<lparr>cursor_key = 9, event_time = 0\<rparr>],
        Response 200 []]) =
     Some (Inr (- 1))"
  by code_simp

lemma max_key_eq_Max:
  assumes "rs \<noteq> []"
  shows "max_key rs = Max (set (map cursor_key rs))"
proof (cases rs)
  case Nil
  with assms show ?thesis by simp
next
  case (Cons a list)
  have "Max (set (map cursor_key (a # list))) = fold max (map cursor_key list) (cursor_key a)"
    by (simp only: list.map Max.set_eq_fold)
  with Cons show ?thesis by simp
qed

lemma thousand_trades_nonempty: "thousand_trades n \<noteq> []"
  by (simp add: thousand_trades_def)

lemma max_key_thousand_trades: "max_key (thousand_trades n) = 1000 * n + 999"
proof -
  have "set (map cursor_key (thousand_trades n)) = {1000 * n .. 1000 * n + 999}"
    by (simp add: thousand_trades_def image_image)
  moreover have "Max {1000 * n .. 1000 * n + 999} = 1000 * n + 999"
    by (rule Max_eqI) auto
  ultimately show ?thesis
    by (simp add: max_key_eq_Max thousand_trades_nonempty del: set_map)
qed

lemma lines_reached_IntV:
  "map_of params ''limit'' = Some (IntV l) \<Longrightarrow>
   lines_reached batches params = Inr (5000 \<le> int (length batches) * l)"
  by (simp add: lines_reached_def)

lemma trade_loop_page:
  assumes "num_ne previous_id last_id" and "\<not> (num_ge previous_id last_id \<and> num_gt0 previous_id)"
    and "get_batch (stack_room w) key secret params ''aggTrades'' w ts ds =
           Some (Inr new_batch, params', w', ts', ds')"
    and "new_batch \<noteq> []" and "map_of params' ''limit'' = Some (IntV l)"
  shows "all_trade_to_csv_loop key secret filepath previous_id last_id params batches df w ts ds =
     (if 5000 \<le> (int (length batches) + 1) * l then
        all_trade_to_csv_loop key secret filepath last_id (Int64 (max_key new_batch))
          (AList.update ''fromId'' (NumV (Int64 (wrap64 (max_key new_batch + 1)))) params') []
          (Some (prepare_df (batches @ [new_batch])))
          (append_to_csv (prepare_df (batches @ [new_batch])) filepath w') ts' ds'
      else
        all_trade_to_csv_loop key secret filepath last_id (Int64 (max_key new_batch))
          (AList.update ''fromId'' (NumV (Int64 (wrap64 (max_key new_batch + 1)))) params')
          (batches @ [new_batch]) df w' ts' ds')"
proof -
  have "lines_reached (batches @ [new_batch])
          (AList.update ''fromId'' (NumV (Int64 (wrap64 (max_key new_batch + 1)))) params') =
        Inr (5000 \<le> (int (length batches) + 1) * l)"
    using assms(5) by (simp add: lines_reached_IntV update_conv' add.commute)
  with assms(1-4) show ?thesis
    by (subst all_trade_to_csv_loop.simps) auto
qed

lemma candle_loop_page:
  assumes "\<not> unchanged previous_timestamp last_timestamp"
    and "num_value last_timestamp = Some t" and "\<not> reached_today t"
    and "get_batch (stack_room w) key secret
           (AList.update ''startTime'' (NumV (add_one last_timestamp)) params)
           ''klines'' w ts ds = Some (Inr new_batch, params', w', ts', ds')"
    and "new_batch \<noteq> []" and "t \<noteq> max_key new_batch"
    and "map_of params' ''limit'' = Some (IntV l)"
  shows "all_candle_to_csv_loop key secret reached_today filepath previous_timestamp last_timestamp
           params batches df w ts ds =
     (if 5000 \<le> (int (length batches) + 1) * l then
        all_candle_to_csv_loop key secret reached_today filepath (Some last_timestamp)
          (Int64 (max_key new_batch)) params' [] (Some (prepare_df (batches @ [new_batch])))
          (append_to_csv (prepare_df (batches @ [new_batch])) filepath w') ts' ds'
      else
        all_candle_to_csv_loop key secret reached_today filepath (Some last_timestamp)
          (Int64 (max_key new_batch)) params' (batches @ [new_batch]) df w' ts' ds')"
proof -
  have "lines_reached (batches @ [new_batch]) params' =
        Inr (5000 \<le> (int (length batches) + 1) * l)"
    using assms(7) by (simp add: lines_reached_IntV add.commute)
  with assms(1-6) show ?thesis
    by (subst all_candle_to_csv_loop.simps) auto
qed

lemma trade_loop_Response:
  assumes "num_ne previous_id last_id" and "\<not> (num_ge previous_id last_id \<and> num_gt0 previous_id)"
    and "key = None \<or> secret = None" and "body \<noteq> []"
    and "map_of params ''limit'' = Some (IntV l)"
  shows "all_trade_to_csv_loop key secret filepath previous_id last_id params batches df w ts
           (Response 200 body # ds) =
     (if 5000 \<le> (int (length batches) + 1) * l then
        all_trade_to_csv_loop key secret filepath last_id (Int64 (max_key body))
          (AList.update ''fromId'' (NumV (Int64 (wrap64 (max_key body + 1)))) params) []
          (Some (prepare_df (batches @ [body])))
          (append_to_csv (prepare_df (batches @ [body])) filepath
             (w\<lparr>sent := sent w @ [(''aggTrades'', params, None)]\<rparr>)) ts ds
      else
        all_trade_to_csv_loop key secret filepath last_id (Int64 (max_key body))
          (AList.update ''fromId'' (NumV (Int64 (wrap64 (max_key body + 1)))) params)
          (batches @ [body]) df (w\<lparr>sent := sent w @ [(''aggTrades'', params, None)]\<rparr>) ts ds)"
  using assms by (intro trade_loop_page) (simp_all add: get_batch_Response)

lemma trade_loop_Response_empty:
  assumes "num_ne previous_id last_id" and "\<not> (num_ge previous_id last_id \<and> num_gt0 previous_id)"
    and "key = None \<or> secret = None"
  shows "all_trade_to_csv_loop key secret filepath previous_id last_id params batches df w ts
           (Response 200 [] # ds) =
         Some (Inr (params, batches, df), w\<lparr>sent := sent w @ [(''aggTrades'', params, None)]\<rparr>, ts, ds)"
  using assms by (simp add: trade_loop_empty_page get_batch_Response)

lemma candle_loop_Response:
  assumes "\<not> unchanged previous_timestamp last_timestamp"
    and "num_value last_timestamp = Some t" and "\<not> reached_today t"
    and "key = None \<or> secret = None" and "body \<noteq> []" and "t \<noteq> max_key body"
    and "map_of params ''limit'' = Some (IntV l)"
  shows "all_candle_to_csv_loop key secret reached_today filepath previous_timestamp last_timestamp
           params batches df w ts (Response 200 body # ds) =
     (if 5000 \<le> (int (length batches) + 1) * l then
        all_candle_to_csv_loop key secret reached_today filepath (Some last_timestamp)
          (Int64 (max_key body)) (AList.update ''startTime'' (NumV (add_one last_timestamp)) params) []
          (Some (prepare_df (batches @ [body])))
          (append_to_csv (prepare_df (batches @ [body])) filepath
             (w\<lparr>sent := sent w @
                [(''klines'', AList.update ''startTime'' (NumV (add_one last_timestamp)) params, None)]\<rparr>))
          ts ds
      else
        all_candle_to_csv_loop key secret reached_today filepath (Some last_timestamp)
          (Int64 (max_key body)) (AList.update ''startTime'' (NumV (add_one last_timestamp)) params)
          (batches @ [body]) df
          (w\<lparr>sent := sent w @
             [(''klines'', AList.update ''startTime'' (NumV (add_one last_timestamp)) params, None)]\<rparr>)
          ts ds)"
  using assms by (intro candle_loop_page [where t = t]) (simp_all add: get_batch_Response update_conv')

lemma candle_loop_Response_empty:
  assumes "\<not> unchanged previous_timestamp last_timestamp"
    and "num_value last_timestamp = Some t" and "\<not> reached_today t"
    and "key = None \<or> secret = None"
  shows "all_candle_to_csv_loop key secret reached_today filepath previous_timestamp last_timestamp
           params batches df w ts (Response 200 [] # ds) =
         Some (Inr (AList.update ''startTime'' (NumV (add_one last_timestamp)) params, batches, df),
           w\<lparr>sent := sent w @
             [(''klines'', AList.update ''startTime'' (NumV (add_one last_timestamp)) params, None)]\<rparr>,
           ts, ds)"
  using assms by (intro candle_loop_empty_page [where t = t]) (simp_all add: get_batch_Response)

lemma trade_loop_pages_below:
  assumes "key = None \<or> secret = None"
    and "map_of params ''limit'' = Some (IntV 1000)"
    and "\<forall>p\<in>set ps. p \<noteq> []"
    and "num_value previous_id = Some b" and "num_value last_id = Some c"
    and "sorted_wrt (<) (b # c # map max_key ps)"
    and "length batches + length ps < 5"
  shows "all_trade_to_csv_loop key secret filepath previous_id last_id params batches df w ts
           (map (Response 200) ps @ Response 200 [] # ds) =
         Some (Inr (fold (\<lambda>p. AList.update ''fromId'' (NumV (Int64 (wrap64 (max_key p + 1))))) ps params,
                    batches @ ps, df),
               w\<lparr>sent := sent w @ (''aggTrades'', params, None) #
                    map (\<lambda>p. (''aggTrades'',
                          AList.update ''fromId'' (NumV (Int64 (wrap64 (max_key p + 1)))) params, None)) ps\<rparr>,
               ts, ds)"
  using assms
proof (induction ps arbitrary: previous_id last_id params batches w b c)
  case Nil
  then have "num_ne previous_id last_id" "\<not> (num_ge previous_id last_id \<and> num_gt0 previous_id)"
    by (simp_all add: num_ne_def num_ge_def)
  with Nil.prems(1) show ?case by (simp add: trade_loop_Response_empty)
next
  case (Cons p ps)
  from Cons.prems have go: "num_ne previous_id last_id"
      "\<not> (num_ge previous_id last_id \<and> num_gt0 previous_id)"
    by (simp_all add: num_ne_def num_ge_def)
  from Cons.prems have p: "p \<noteq> []" and small: "\<not> 5000 \<le> (int (length batches) + 1) * 1000"
    by auto
  have lim: "map_of (AList.update ''fromId'' (NumV (Int64 (wrap64 (max_key p + 1)))) params) ''limit'' =
      Some (IntV 1000)"
    using Cons.prems(2) by (simp add: update_conv')
  have step: "all_trade_to_csv_loop key secret filepath previous_id last_id params batches df w ts
      (map (Response 200) (p # ps) @ Response 200 [] # ds) =
      all_trade_to_csv_loop key secret filepath last_id (Int64 (max_key p))
        (AList.update ''fromId'' (NumV (Int64 (wrap64 (max_key p + 1)))) params)
        (batches @ [p]) df (w\<lparr>sent := sent w @ [(''aggTrades'', params, None)]\<rparr>) ts
        (map (Response 200) ps @ Response 200 [] # ds)"
    using trade_loop_Response [OF go Cons.prems(1) p Cons.prems(2)] small by simp
  have "all_trade_to_csv_loop key secret filepath last_id (Int64 (max_key p))
        (AList.update ''fromId'' (NumV (Int64 (wrap64 (max_key p + 1)))) params)
        (batches @ [p]) df (w\<lparr>sent := sent w @ [(''aggTrades'', params, None)]\<rparr>) ts
        (map (Response 200) ps @ Response 200 [] # ds) =
      Some (Inr (fold (\<lambda>p. AList.update ''fromId'' (NumV (Int64 (wrap64 (max_key p + 1))))) ps
                   (AList.update ''fromId'' (NumV (Int64 (wrap64 (max_key p + 1)))) params),
                 (batches @ [p]) @ ps, df),
            (w\<lparr>sent := sent w @ [(''aggTrades'', params, None)]\<rparr>)
              \<lparr>sent := sent (w\<lparr>sent := sent w @ [(''aggTrades'', params, None)]\<rparr>) @
                 (''aggTrades'', AList.update ''fromId'' (NumV (Int64 (wrap64 (max_key p + 1)))) params, None) #
                 map (\<lambda>q. (''aggTrades'',
                       AList.update ''fromId'' (NumV (Int64 (wrap64 (max_key q + 1))))
                         (AList.update ''fromId'' (NumV (Int64 (wrap64 (max_key p + 1)))) params), None)) ps\<rparr>,
            ts, ds)"
    using Cons.prems by (intro Cons.IH [where b = c and c = "max_key p"]) (auto simp: lim)
  with step show ?case by simp
qed

lemma trade_loop_pages_flush:
  assumes "key = None \<or> secret = None"
    and "map_of params ''limit'' = Some (IntV 1000)"
    and "\<forall>p\<in>set ps. p \<noteq> []"
    and "num_value previous_id = Some b" and "num_value last_id = Some c"
    and "sorted_wrt (<) (b # c # map max_key ps)"
    and "length batches + length ps = 5" and "ps \<noteq> []"
  shows "all_trade_to_csv_loop key secret filepath previous_id last_id params batches df w ts
           (map (Response 200) ps @ Response 200 [] # ds) =
         Some (Inr (fold (\<lambda>p. AList.update ''fromId'' (NumV (Int64 (wrap64 (max_key p + 1))))) ps params,
                    [], Some (prepare_df (batches @ ps))),
               append_to_csv (prepare_df (batches @ ps)) filepath
                 (w\<lparr>sent := sent w @ (''aggTrades'', params, None) #
                    map (\<lambda>p. (''aggTrades'',
                          AList.update ''fromId'' (NumV (Int64 (wrap64 (max_key p + 1)))) params, None)) ps\<rparr>),
               ts, ds)"
  using assms
proof (induction ps arbitrary: previous_id last_id params batches w b c)
  case Nil
  then show ?case by simp
next
  case (Cons p ps)
  from Cons.prems have go: "num_ne previous_id last_id"
      "\<not> (num_ge previous_id last_id \<and> num_gt0 previous_id)"
    by (simp_all add: num_ne_def num_ge_def)
  from Cons.prems have p: "p \<noteq> []" by auto
  have lim: "map_of (AList.update ''fromId'' (NumV (Int64 (wrap64 (max_key p + 1)))) params) ''limit'' =
      Some (IntV 1000)"
    using Cons.prems(2) by (simp add: update_conv')
  note step = trade_loop_Response [OF go Cons.prems(1) p Cons.prems(2), of filepath batches df w ts
      "map (Response 200) ps @ Response 200 [] # ds"]
  show ?case
  proof (cases "ps = []")
    case True
    with Cons.prems have len: "length batches = 4" and lt: "c < max_key p" by auto
    from lt have go2: "num_ne last_id (Int64 (max_key p))"
      "\<not> (num_ge last_id (Int64 (max_key p)) \<and> num_gt0 last_id)"
      using Cons.prems(5) by (simp_all add: num_ne_def num_ge_def)
    from step len True show ?thesis
      by (simp add: trade_loop_Response_empty [OF go2 Cons.prems(1)] append_to_csv_def)
  next
    case False
    with Cons.prems have small: "\<not> 5000 \<le> (int (length batches) + 1) * 1000"
      by (cases ps) auto
    have "all_trade_to_csv_loop key secret filepath last_id (Int64 (max_key p))
        (AList.update ''fromId'' (NumV (Int64 (wrap64 (max_key p + 1)))) params)
        (batches @ [p]) df (w\<lparr>sent := sent w @ [(''aggTrades'', params, None)]\<rparr>) ts
        (map (Response 200) ps @ Response 200 [] # ds) =
      Some (Inr (fold (\<lambda>p. AList.update ''fromId'' (NumV (Int64 (wrap64 (max_key p + 1))))) ps
                   (AList.update ''fromId'' (NumV (Int64 (wrap64 (max_key p + 1)))) params),
                 [], Some (prepare_df ((batches @ [p]) @ ps))),
            append_to_csv (prepare_df ((batches @ [p]) @ ps)) filepath
              ((w\<lparr>sent := sent w @ [(''aggTrades'', params, None)]\<rparr>)
                \<lparr>sent := sent (w\<lparr>sent := sent w @ [(''aggTrades'', params, None)]\<rparr>) @
                 (''aggTrades'', AList.update ''fromId'' (NumV (Int64 (wrap64 (max_key p + 1)))) params, None) #
                 map (\<lambda>q. (''aggTrades'',
                       AList.update ''fromId'' (NumV (Int64 (wrap64 (max_key q + 1))))
                         (AList.update ''fromId'' (NumV (Int64 (wrap64 (max_key p + 1)))) params), None)) ps\<rparr>),
            ts, ds)"
      using Cons.prems False by (intro Cons.IH [where b = c and c = "max_key p"]) (auto simp: lim)
    with step small show ?thesis by simp
  qed
qed

lemma candle_loop_pages_below:
  assumes "key = None \<or> secret = None"
    and "map_of params ''limit'' = Some (IntV 1000)"
    and "\<forall>p\<in>set ps. p \<noteq> [] \<and> \<not> reached_today (max_key p)"
    and "\<not> unchanged previous_timestamp last_timestamp"
    and "num_value last_timestamp = Some c" and "\<not> reached_today c"
    and "sorted_wrt (<) (c # map max_key ps)"
    and "length batches + length ps < 5"
  shows "all_candle_to_csv_loop key secret reached_today filepath previous_timestamp last_timestamp
           params batches df w ts (map (Response 200) ps @ Response 200 [] # ds) =
         Some (Inr (AList.update ''startTime''
                      (NumV (add_one (last (last_timestamp # map (\<lambda>p. Int64 (max_key p)) ps)))) params,
                    batches @ ps, df),
               w\<lparr>sent := sent w @
                    map (\<lambda>t. (''klines'', AList.update ''startTime'' (NumV (add_one t)) params, None))
                      (last_timestamp # map (\<lambda>p. Int64 (max_key p)) ps)\<rparr>,
               ts, ds)"
  using assms
proof (induction ps arbitrary: previous_timestamp last_timestamp params batches w c)
  case Nil
  then show ?case by (simp add: candle_loop_Response_empty [where t = c])
next
  case (Cons p ps)
  from Cons.prems have p: "p \<noteq> []" "c \<noteq> max_key p"
    and small: "\<not> 5000 \<le> (int (length batches) + 1) * 1000"
    by auto
  have lim: "map_of (AList.update ''startTime'' (NumV (add_one last_timestamp)) params) ''limit'' =
      Some (IntV 1000)"
    using Cons.prems(2) by (simp add: update_conv')
  from Cons.prems have un: "\<not> unchanged (Some last_timestamp) (Int64 (max_key p))"
    by (simp add: unchanged_def num_ne_def)
  note step = candle_loop_Response [where reached_today = reached_today and t = c, OF Cons.prems(4) Cons.prems(5) Cons.prems(6) Cons.prems(1) p
      Cons.prems(2), of filepath batches df w ts "map (Response 200) ps @ Response 200 [] # ds"]
  have "all_candle_to_csv_loop key secret reached_today filepath (Some last_timestamp)
        (Int64 (max_key p)) (AList.update ''startTime'' (NumV (add_one last_timestamp)) params)
        (batches @ [p]) df
        (w\<lparr>sent := sent w @
             [(''klines'', AList.update ''startTime'' (NumV (add_one last_timestamp)) params, None)]\<rparr>)
        ts (map (Response 200) ps @ Response 200 [] # ds) =
      Some (Inr (AList.update ''startTime''
                   (NumV (add_one (last (Int64 (max_key p) # map (\<lambda>p. Int64 (max_key p)) ps))))
                   (AList.update ''startTime'' (NumV (add_one last_timestamp)) params),
                 (batches @ [p]) @ ps, df),
            (w\<lparr>sent := sent w @
               [(''klines'', AList.update ''startTime'' (NumV (add_one last_timestamp)) params, None)]\<rparr>)
              \<lparr>sent := sent (w\<lparr>sent := sent w @
                 [(''klines'', AList.update ''startTime'' (NumV (add_one last_timestamp)) params, None)]\<rparr>) @
                 map (\<lambda>t. (''klines'', AList.update ''startTime'' (NumV (add_one t))
                        (AList.update ''startTime'' (NumV (add_one last_timestamp)) params), None))
                   (Int64 (max_key p) # map (\<lambda>p. Int64 (max_key p)) ps)\<rparr>,
            ts, ds)"
    using Cons.prems un by (intro Cons.IH [where c = "max_key p"]) (auto simp: lim)
  with step small show ?case by simp
qed

lemma candle_loop_pages_flush:
  assumes "key = None \<or> secret = None"
    and "map_of params ''limit'' = Some (IntV 1000)"
    and "\<forall>p\<in>set ps. p \<noteq> [] \<and> \<not> reached_today (max_key p)"
    and "\<not> unchanged previous_timestamp last_timestamp"
    and "num_value last_timestamp = Some c" and "\<not> reached_today c"
    and "sorted_wrt (<) (c # map max_key ps)"
    and "length batches + length ps = 5" and "ps \<noteq> []"
  shows "all_candle_to_csv_loop key secret reached_today filepath previous_timestamp last_timestamp
           params batches df w ts (map (Response 200) ps @ Response 200 [] # ds) =
         Some (Inr (AList.update ''startTime''
                      (NumV (add_one (last (last_timestamp # map (\<lambda>p. Int64 (max_key p)) ps)))) params,
                    [], Some (prepare_df (batches @ ps))),
               append_to_csv (prepare_df (batches @ ps)) filepath
                 (w\<lparr>sent := sent w @
                    map (\<lambda>t. (''klines'', AList.update ''startTime'' (NumV (add_one t)) params, None))
                      (last_timestamp # map (\<lambda>p. Int64 (max_key p)) ps)\<rparr>),
               ts, ds)"
  using assms
proof (induction ps arbitrary: previous_timestamp last_timestamp params batches w c)
  case Nil
  then show ?case by simp
next
  case (Cons p ps)
  from Cons.prems have p: "p \<noteq> []" "c \<noteq> max_key p" and today: "\<not> reached_today (max_key p)"
    by auto
  have lim: "map_of (AList.update ''startTime'' (NumV (add_one last_timestamp)) params) ''limit'' =
      Some (IntV 1000)"
    using Cons.prems(2) by (simp add: update_conv')
  from Cons.prems have un: "\<not> unchanged (Some last_timestamp) (Int64 (max_key p))"
    by (simp add: unchanged_def num_ne_def)
  note step = candle_loop_Response [where reached_today = reached_today and t = c, OF Cons.prems(4) Cons.prems(5) Cons.prems(6) Cons.prems(1) p
      Cons.prems(2), of filepath batches df w ts "map (Response 200) ps @ Response 200 [] # ds"]
  show ?case
  proof (cases "ps = []")
    case True
    with Cons.prems have len: "length batches = 4" by auto
    have v: "num_value (Int64 (max_key p)) = Some (max_key p)" by simp
    from step len True show ?thesis
      by (simp add: candle_loop_Response_empty [where reached_today = reached_today and t = "max_key p", OF un v today Cons.prems(1)] append_to_csv_def)
  next
    case False
    with Cons.prems have small: "\<not> 5000 \<le> (int (length batches) + 1) * 1000"
      by (cases ps) auto
    have "all_candle_to_csv_loop key secret reached_today filepath (Some last_timestamp)
        (Int64 (max_key p)) (AList.update ''startTime'' (NumV (add_one last_timestamp)) params)
        (batches @ [p]) df
        (w\<lparr>sent := sent w @
             [(''klines'', AList.update ''startTime'' (NumV (add_one last_timestamp)) params, None)]\<rparr>)
        ts (map (Response 200) ps @ Response 200 [] # ds) =
      Some (Inr (AList.update ''startTime''
                   (NumV (add_one (last (Int64 (max_key p) # map (\<lambda>p. Int64 (max_key p)) ps))))
                   (AList.update ''startTime'' (NumV (add_one last_timestamp)) params),
                 [], Some (prepare_df ((batches @ [p]) @ ps))),
            append_to_csv (prepare_df ((batches @ [p]) @ ps)) filepath
            ((w\<lparr>sent := sent w @
               [(''klines'', AList.update ''startTime'' (NumV (add_one last_timestamp)) params, None)]\<rparr>)
              \<lparr>sent := sent (w\<lparr>sent := sent w @
                 [(''klines'', AList.update ''startTime'' (NumV (add_one last_timestamp)) params, None)]\<rparr>) @
                 map (\<lambda>t. (''klines'', AList.update ''startTime'' (NumV (add_one t))
                        (AList.update ''startTime'' (NumV (add_one last_timestamp)) params), None))
                   (Int64 (max_key p) # map (\<lambda>p. Int64 (max_key p)) ps)\<rparr>),
            ts, ds)"
      using Cons.prems un False by (intro Cons.IH [where c = "max_key p"]) (auto simp: lim)
    with step small show ?thesis by simp
  qed
qed

lemma trade_run_four_pages:
  assumes "trade_resume (trade_filepath base quote) params_in w = Inr (last_id, params)"
    and "key = None \<or> secret = None"
    and "map_of params ''limit'' = Some (IntV 1000)"
    and "\<forall>p\<in>set ps. p \<noteq> []"
    and "num_value last_id = Some c"
    and "sorted_wrt (<) (- 1 # c # map max_key ps)"
    and "length ps = 4"
  shows "all_trade_to_csv key secret base quote params_in False w ts
           (map (Response 200) ps @ Response 200 [] # ds) =
         Some (Inr 0,
               append_to_csv (prepare_df ([] # ps)) (trade_filepath base quote)
                 (w\<lparr>sent := sent w @ (''aggTrades'', params, None) #
                    map (\<lambda>p. (''aggTrades'',
                          AList.update ''fromId'' (NumV (Int64 (wrap64 (max_key p + 1)))) params, None)) ps\<rparr>),
               ts, ds)"
proof -
  have v: "num_value (PyInt (- 1)) = Some (- 1)" by simp
  from assms(7) have len: "length ([[]] :: page list) + length ps = 5" and ne: "ps \<noteq> []" by auto
  note lp = trade_loop_pages_flush [OF assms(2) assms(3) assms(4) v assms(5) assms(6) len ne,
      of "trade_filepath base quote" None w ts ds]
  from all_trade_to_csv_after_loop [OF assms(1) lp, of False] show ?thesis
    by (simp add: after_loop_def)
qed

lemma candle_resume_one_element:
  "candle_resume filepath params w = Inr (batches, last_timestamp) \<Longrightarrow> length batches = 1"
  by (auto simp: candle_resume_def split: option.splits pval.splits)

lemma candle_run_four_pages:
  assumes "candle_resume (candle_filepath base quote interval) params w = Inr (batches, last_timestamp)"
    and "key = None \<or> secret = None"
    and "map_of params ''limit'' = Some (IntV 1000)"
    and "\<forall>p\<in>set ps. p \<noteq> [] \<and> \<not> reached_today (max_key p)"
    and "num_value last_timestamp = Some c" and "\<not> reached_today c"
    and "sorted_wrt (<) (c # map max_key ps)"
    and "length ps = 4"
  shows "all_candle_to_csv key secret reached_today base quote params interval False w ts
           (map (Response 200) ps @ Response 200 [] # ds) =
         Some (Inr 0,
               append_to_csv (prepare_df (batches @ ps)) (candle_filepath base quote interval)
                 (w\<lparr>sent := sent w @
                    map (\<lambda>t. (''klines'', AList.update ''startTime'' (NumV (add_one t)) params, None))
                      (last_timestamp # map (\<lambda>p. Int64 (max_key p)) ps)\<rparr>),
               ts, ds)"
proof -
  from assms(1) have "length batches = 1" by (rule candle_resume_one_element)
  with assms(8) have len: "length batches + length ps = 5" and ne: "ps \<noteq> []" by auto
  have un: "\<not> unchanged None last_timestamp" by (simp add: unchanged_def)
  have lp: "all_candle_to_csv_loop key secret reached_today (candle_filepath base quote interval) None
      last_timestamp params batches None w ts (map (Response 200) ps @ Response 200 [] # ds) =
      Some (Inr (AList.update ''startTime''
                      (NumV (add_one (last (last_timestamp # map (\<lambda>p. Int64 (max_key p)) ps)))) params,
                    [], Some (prepare_df (batches @ ps))),
               append_to_csv (prepare_df (batches @ ps)) (candle_filepath base quote interval)
                 (w\<lparr>sent := sent w @
                    map (\<lambda>t. (''klines'', AList.update ''startTime'' (NumV (add_one t)) params, None))
                      (last_timestamp # map (\<lambda>p. Int64 (max_key p)) ps)\<rparr>),
               ts, ds)"
    using assms(2-7) un len ne by (intro candle_loop_pages_flush [where c = c]) auto
  from all_candle_to_csv_after_loop [OF assms(1) lp, of False] show ?thesis
    by (simp add: after_loop_def)
qed

text \<open>
  C4, as the code has it. One iteration (the first two parts, for any limit): right
  after a page is appended, the loop flushes exactly when the number of elements of the
  accumulator times the limit has reached 5000, and goes on with an empty accumulator;
  otherwise it goes on with the page appended and nothing written. With limit 1000 the
  test holds exactly when the accumulator had four elements before the page. Whole runs
  (limit 1000, no credentials, pages that are not empty and whose largest keys increase,
  then an empty page): a loop whose accumulator and pages count fewer than five elements
  together returns with the pages appended and nothing written; when they count exactly
  five, it returns after one call of \<^verbatim>\<open>pp.append_to_csv\<close> with the table of all of
  them and with the accumulator empty, having sent one request per page and one more.
  A driver starts its loop with one element in the accumulator (the table read from
  disk, or an empty one), so in a run of either driver the first flush comes with the
  fourth page fetched; after a flush the accumulator is empty, so the next one comes
  with the fifth page after it.
\<close>

theorem flush_cadence:
  "(new_batch \<noteq> [] \<and> map_of params' ''limit'' = Some (IntV l) \<and>
    num_ne previous_id last_id \<and> \<not> (num_ge previous_id last_id \<and> num_gt0 previous_id) \<and>
    get_batch (stack_room w) key secret params ''aggTrades'' w ts ds =
      Some (Inr new_batch, params', w', ts', ds') \<longrightarrow>
    all_trade_to_csv_loop key secret filepath previous_id last_id params batches df w ts ds =
      (if 5000 \<le> (int (length batches) + 1) * l then
         all_trade_to_csv_loop key secret filepath last_id (Int64 (max_key new_batch))
           (AList.update ''fromId'' (NumV (Int64 (wrap64 (max_key new_batch + 1)))) params') []
           (Some (prepare_df (batches @ [new_batch])))
           (append_to_csv (prepare_df (batches @ [new_batch])) filepath w') ts' ds'
       else
         all_trade_to_csv_loop key secret filepath last_id (Int64 (max_key new_batch))
           (AList.update ''fromId'' (NumV (Int64 (wrap64 (max_key new_batch + 1)))) params')
           (batches @ [new_batch]) df w' ts' ds')) \<and>
   (new_batch \<noteq> [] \<and> map_of params' ''limit'' = Some (IntV l) \<and>
    \<not> unchanged previous_timestamp last_timestamp \<and> num_value last_timestamp = Some t \<and>
    \<not> reached_today t \<and> t \<noteq> max_key new_batch \<and>
    get_batch (stack_room w) key secret
      (AList.update ''startTime'' (NumV (add_one last_timestamp)) params) ''klines'' w ts ds =
      Some (Inr new_batch, params', w', ts', ds') \<longrightarrow>
    all_candle_to_csv_loop key secret reached_today filepath previous_timestamp last_timestamp
        params batches df w ts ds =
      (if 5000 \<le> (int (length batches) + 1) * l then
         all_candle_to_csv_loop key secret reached_today filepath (Some last_timestamp)
           (Int64 (max_key new_batch)) params' [] (Some (prepare_df (batches @ [new_batch])))
           (append_to_csv (prepare_df (batches @ [new_batch])) filepath w') ts' ds'
       else
         all_candle_to_csv_loop key secret reached_today filepath (Some last_timestamp)
           (Int64 (max_key new_batch)) params' (batches @ [new_batch]) df w' ts' ds')) \<and>
   ((5000 \<le> (int (length batches) + 1) * 1000) = (4 \<le> length batches)) \<and>
   ((key = None \<or> secret = None) \<and> map_of params ''limit'' = Some (IntV 1000) \<and>
    (\<forall>p\<in>set ps. p \<noteq> []) \<and> num_value previous_id = Some b \<and> num_value last_id = Some c \<and>
    sorted_wrt (<) (b # c # map max_key ps) \<and> length batches + length ps < 5 \<longrightarrow>
    all_trade_to_csv_loop key secret filepath previous_id last_id params batches df w ts
        (map (Response 200) ps @ Response 200 [] # ds) =
      Some (Inr (fold (\<lambda>p. AList.update ''fromId'' (NumV (Int64 (wrap64 (max_key p + 1))))) ps params,
                 batches @ ps, df),
            w\<lparr>sent := sent w @ (''aggTrades'', params, None) #
                 map (\<lambda>p. (''aggTrades'',
                       AList.update ''fromId'' (NumV (Int64 (wrap64 (max_key p + 1)))) params, None)) ps\<rparr>,
            ts, ds)) \<and>
   ((key = None \<or> secret = None) \<and> map_of params ''limit'' = Some (IntV 1000) \<and>
    (\<forall>p\<in>set ps. p \<noteq> []) \<and> num_value previous_id = Some b \<and> num_value last_id = Some c \<and>
    sorted_wrt (<) (b # c # map max_key ps) \<and> length batches + length ps = 5 \<and> ps \<noteq> [] \<longrightarrow>
    all_trade_to_csv_loop key secret filepath previous_id last_id params batches df w ts
        (map (Response 200) ps @ Response 200 [] # ds) =
      Some (Inr (fold (\<lambda>p. AList.update ''fromId'' (NumV (Int64 (wrap64 (max_key p + 1))))) ps params,
                 [], Some (prepare_df (batches @ ps))),
            append_to_csv (prepare_df (batches @ ps)) filepath
              (w\<lparr>sent := sent w @ (''aggTrades'', params, None) #
                 map (\<lambda>p. (''aggTrades'',
                       AList.update ''fromId'' (NumV (Int64 (wrap64 (max_key p + 1)))) params, None)) ps\<rparr>),
            ts, ds)) \<and>
   ((key = None \<or> secret = None) \<and> map_of params ''limit'' = Some (IntV 1000) \<and>
    (\<forall>p\<in>set ps. p \<noteq> [] \<and> \<not> reached_today (max_key p)) \<and>
    \<not> unchanged previous_timestamp last_timestamp \<and> num_value last_timestamp = Some t \<and>
    \<not> reached_today t \<and> sorted_wrt (<) (t # map max_key ps) \<and>
    length batches + length ps < 5 \<longrightarrow>
    all_candle_to_csv_loop key secret reached_today filepath previous_timestamp last_timestamp
        params batches df w ts (map (Response 200) ps @ Response 200 [] # ds) =
      Some (Inr (AList.update ''startTime''
                   (NumV (add_one (last (last_timestamp # map (\<lambda>p. Int64 (max_key p)) ps)))) params,
                 batches @ ps, df),
            w\<lparr>sent := sent w @
                 map (\<lambda>t. (''klines'', AList.update ''startTime'' (NumV (add_one t)) params, None))
                   (last_timestamp # map (\<lambda>p. Int64 (max_key p)) ps)\<rparr>,
            ts, ds)) \<and>
   ((key = None \<or> secret = None) \<and> map_of params ''limit'' = Some (IntV 1000) \<and>
    (\<forall>p\<in>set ps. p \<noteq> [] \<and> \<not> reached_today (max_key p)) \<and>
    \<not> unchanged previous_timestamp last_timestamp \<and> num_value last_timestamp = Some t \<and>
    \<not> reached_today t \<and> sorted_wrt (<) (t # map max_key ps) \<and>
    length batches + length ps = 5 \<and> ps \<noteq> [] \<longrightarrow>
    all_candle_to_csv_loop key secret reached_today filepath previous_timestamp last_timestamp
        params batches df w ts (map (Response 200) ps @ Response 200 [] # ds) =
      Some (Inr (AList.update ''startTime''
                   (NumV (add_one (last (last_timestamp # map (\<lambda>p. Int64 (max_key p)) ps)))) params,
                 [], Some (prepare_df (batches @ ps))),
            append_to_csv (prepare_df (batches @ ps)) filepath
              (w\<lparr>sent := sent w @
                 map (\<lambda>t. (''klines'', AList.update ''startTime'' (NumV (add_one t)) params, None))
                   (last_timestamp # map (\<lambda>p. Int64 (max_key p)) ps)\<rparr>),
            ts, ds)) \<and>
   (trade_resume (trade_filepath base quote) params_in w = Inr (last_id, params) \<and>
    (key = None \<or> secret = None) \<and> map_of params ''limit'' = Some (IntV 1000) \<and>
    (\<forall>p\<in>set ps. p \<noteq> []) \<and> num_value last_id = Some c \<and>
    sorted_wrt (<) (- 1 # c # map max_key ps) \<and> length ps = 4 \<longrightarrow>
    all_trade_to_csv key secret base quote params_in False w ts
        (map (Response 200) ps @ Response 200 [] # ds) =
      Some (Inr 0,
            append_to_csv (prepare_df ([] # ps)) (trade_filepath base quote)
              (w\<lparr>sent := sent w @ (''aggTrades'', params, None) #
                 map (\<lambda>p. (''aggTrades'',
                       AList.update ''fromId'' (NumV (Int64 (wrap64 (max_key p + 1)))) params, None)) ps\<rparr>),
            ts, ds)) \<and>
   (candle_resume (candle_filepath base quote interval) params w = Inr (batches, last_timestamp) \<and>
    (key = None \<or> secret = None) \<and> map_of params ''limit'' = Some (IntV 1000) \<and>
    (\<forall>p\<in>set ps. p \<noteq> [] \<and> \<not> reached_today (max_key p)) \<and>
    num_value last_timestamp = Some t \<and> \<not> reached_today t \<and>
    sorted_wrt (<) (t # map max_key ps) \<and> length ps = 4 \<longrightarrow>
    length batches = 1 \<and>
    all_candle_to_csv key secret reached_today base quote params interval False w ts
        (map (Response 200) ps @ Response 200 [] # ds) =
      Some (Inr 0,
            append_to_csv (prepare_df (batches @ ps)) (candle_filepath base quote interval)
              (w\<lparr>sent := sent w @
                 map (\<lambda>t. (''klines'', AList.update ''startTime'' (NumV (add_one t)) params, None))
                   (last_timestamp # map (\<lambda>p. Int64 (max_key p)) ps)\<rparr>),
            ts, ds))"
proof (intro conjI impI; (elim conjE)?)
  show "(5000 \<le> (int (length batches) + 1) * 1000) = (4 \<le> length batches)" by auto
next
  assume "candle_resume (candle_filepath base quote interval) params w = Inr (batches, last_timestamp)"
  then show "length batches = 1" by (rule candle_resume_one_element)
qed (simp_all add: trade_loop_page candle_loop_page [where t = t] trade_loop_pages_below [where b = b and c = c]
    trade_loop_pages_flush [where b = b and c = c] candle_loop_pages_below [where c = t]
    candle_loop_pages_flush [where c = t] trade_run_four_pages [where c = c and last_id = last_id]
    candle_run_four_pages [where c = t and last_timestamp = last_timestamp and batches = batches])

theorem flush_cadence_witness:
  "all_trade_to_csv None None ''BTC'' ''USDT''
       [(''symbol'', StrV ''BTCUSDT''), (''fromId'', IntV 0), (''limit'', IntV 1000)] False
       empty_world []
       [Response 200 [\<lparr>cursor_key = 1, event_time = 0\<rparr>],
        Response 200 [\<lparr>cursor_key = 2, event_time = 0\<rparr>],
        Response 200 [\<lparr>cursor_key = 3, event_time = 0\<rparr>],
        Response 200 [\<lparr>cursor_key = 4, event_time = 0\<rparr>],
        Response 200 []] =
     Some (Inr 0,
       \<lparr>sent = [(''aggTrades'',
            [(''symbol'', StrV ''BTCUSDT''), (''fromId'', IntV 0), (''limit'', IntV 1000)], None),
           (''aggTrades'',
            [(''symbol'', StrV ''BTCUSDT''), (''fromId'', NumV (Int64 2)), (''limit'', IntV 1000)], None),
           (''aggTrades'',
            [(''symbol'', StrV ''BTCUSDT''), (''fromId'', NumV (Int64 3)), (''limit'', IntV 1000)], None),
           (''aggTrades'',
            [(''symbol'', StrV ''BTCUSDT''), (''fromId'', NumV (Int64 4)), (''limit'', IntV 1000)], None),
           (''aggTrades'',
            [(''symbol'', StrV ''BTCUSDT''), (''fromId'', NumV (Int64 5)), (''limit'', IntV 1000)], None)],
        time_calls = 0, slept = 0,
        files = [(''data/trade_BTC-USDT.csv'',
                  [\<lparr>cursor_key = 1, event_time = 0\<rparr>, \<lparr>cursor_key = 2, event_time = 0\<rparr>,
                   \<lparr>cursor_key = 3, event_time = 0\<rparr>, \<lparr>cursor_key = 4, event_time = 0\<rparr>])],
        csv_appends = [(''data/trade_BTC-USDT.csv'',
                  [\<lparr>cursor_key = 1, event_time = 0\<rparr>, \<lparr>cursor_key = 2, event_time = 0\<rparr>,
                   \<lparr>cursor_key = 3, event_time = 0\<rparr>, \<lparr>cursor_key = 4, event_time = 0\<rparr>])],
        parquet_files = [], stack_room = 900\<rparr>, [], []) \<and>
   all_candle_to_csv_loop None None (on_or_after 1000) ''data/candle_BTC-USDT_interval-1m.csv''
       None (PyInt 0)
       [(''symbol'', StrV ''BTCUSDT''), (''interval'', StrV ''1m''), (''startTime'', IntV 0),
        (''limit'', IntV 1000)] [] None empty_world []
       [Response 200 [\<lparr>cursor_key = 1, event_time = 0\<rparr>],
        Response 200 [\<lparr>cursor_key = 2, event_time = 0\<rparr>],
        Response 200 [\<lparr>cursor_key = 3, event_time = 0\<rparr>],
        Response 200 [\<lparr>cursor_key = 4, event_time = 0\<rparr>],
        Response 200 [\<lparr>cursor_key = 5, event_time = 0\<rparr>],
        Response 200 []] =
     Some (Inr ([(''symbol'', StrV ''BTCUSDT''), (''interval'', StrV ''1m''),
                 (''startTime'', NumV (Int64 6)), (''limit'', IntV 1000)], [],
                Some [\<lparr>cursor_key = 1, event_time = 0\<rparr>, \<lparr>cursor_key = 2, event_time = 0\<rparr>,
                      \<lparr>cursor_key = 3, event_time = 0\<rparr>, \<lparr>cursor_key = 4, event_time = 0\<rparr>,
                      \<lparr>cursor_key = 5, event_time = 0\<rparr>]),
       \<lparr>sent = [(''klines'',
            [(''symbol'', StrV ''BTCUSDT''), (''interval'', StrV ''1m''), (''startTime'', IntV 1),
             (''limit'', IntV 1000)], None),
           (''klines'',
            [(''symbol'', StrV ''BTCUSDT''), (''interval'', StrV ''1m''),
             (''startTime'', NumV (Int64 2)), (''limit'', IntV 1000)], None),
           (''klines'',
            [(''symbol'', StrV ''BTCUSDT''), (''interval'', StrV ''1m''),
             (''startTime'', NumV (Int64 3)), (''limit'', IntV 1000)], None),
           (''klines'',
            [(''symbol'', StrV ''BTCUSDT''), (''interval'', StrV ''1m''),
             (''startTime'', NumV (Int64 4)), (''limit'', IntV 1000)], None),
           (''klines'',
            [(''symbol'', StrV ''BTCUSDT''), (''interval'', StrV ''1m''),
             (''startTime'', NumV (Int64 5)), (''limit'', IntV 1000)], None),
           (''klines'',
            [(''symbol'', StrV ''BTCUSDT''), (''interval'', StrV ''1m''),
             (''startTime'', NumV (Int64 6)), (''limit'', IntV 1000)], None)],
        time_calls = 0, slept = 0,
        files = [(''data/candle_BTC-USDT_interval-1m.csv'',
                  [\<lparr>cursor_key = 1, event_time = 0\<rparr>, \<lparr>cursor_key = 2, event_time = 0\<rparr>,
                   \<lparr>cursor_key = 3, event_time = 0\<rparr>, \<lparr>cursor_key = 4, event_time = 0\<rparr>,
                   \<lparr>cursor_key = 5, event_time = 0\<rparr>])],
        csv_appends = [(''data/candle_BTC-USDT_interval-1m.csv'',
                  [\<lparr>cursor_key = 1, event_time = 0\<rparr>, \<lparr>cursor_key = 2, event_time = 0\<rparr>,
                   \<lparr>cursor_key = 3, event_time = 0\<rparr>, \<lparr>cursor_key = 4, event_time = 0\<rparr>,
                   \<lparr>cursor_key = 5, event_time = 0\<rparr>])],
        parquet_files = [], stack_room = 900\<rparr>, [], [])"
proof -
  have r: "trade_resume (trade_filepath ''BTC'' ''USDT'')
      [(''symbol'', StrV ''BTCUSDT''), (''fromId'', IntV 0), (''limit'', IntV 1000)] empty_world =
      Inr (PyInt 0, [(''symbol'', StrV ''BTCUSDT''), (''fromId'', IntV 0), (''limit'', IntV 1000)])"
    by code_simp
  have p4: "prepare_df [[], [\<lparr>cursor_key = 1, event_time = 0\<rparr>], [\<lparr>cursor_key = 2, event_time = 0\<rparr>],
      [\<lparr>cursor_key = 3, event_time = 0\<rparr>], [\<lparr>cursor_key = 4, event_time = 0\<rparr>]] =
      [\<lparr>cursor_key = 1, event_time = 0\<rparr>, \<lparr>cursor_key = 2, event_time = 0\<rparr>,
       \<lparr>cursor_key = 3, event_time = 0\<rparr>, \<lparr>cursor_key = 4, event_time = 0\<rparr>]"
    by code_simp
  have p5: "prepare_df [[\<lparr>cursor_key = 1, event_time = 0\<rparr>], [\<lparr>cursor_key = 2, event_time = 0\<rparr>],
      [\<lparr>cursor_key = 3, event_time = 0\<rparr>], [\<lparr>cursor_key = 4, event_time = 0\<rparr>],
      [\<lparr>cursor_key = 5, event_time = 0\<rparr>]] =
      [\<lparr>cursor_key = 1, event_time = 0\<rparr>, \<lparr>cursor_key = 2, event_time = 0\<rparr>,
       \<lparr>cursor_key = 3, event_time = 0\<rparr>, \<lparr>cursor_key = 4, event_time = 0\<rparr>,
       \<lparr>cursor_key = 5, event_time = 0\<rparr>]"
    by code_simp
  have w: "wrap64 2 = 2" "wrap64 3 = 3" "wrap64 4 = 4" "wrap64 5 = 5" "wrap64 6 = 6"
    by (simp_all add: wrap64_def)
  note trade = flush_cadence [where key = None and secret = None and base = "''BTC''"
      and quote = "''USDT''"
      and params_in = "[(''symbol'', StrV ''BTCUSDT''), (''fromId'', IntV 0), (''limit'', IntV 1000)]"
      and params = "[(''symbol'', StrV ''BTCUSDT''), (''fromId'', IntV 0), (''limit'', IntV 1000)]"
      and w = empty_world and last_id = "PyInt 0" and c = 0 and ts = "[]" and ds = "[]"
      and ps = "[[\<lparr>cursor_key = 1, event_time = 0\<rparr>], [\<lparr>cursor_key = 2, event_time = 0\<rparr>],
                 [\<lparr>cursor_key = 3, event_time = 0\<rparr>], [\<lparr>cursor_key = 4, event_time = 0\<rparr>]]",
      THEN conjunct2, THEN conjunct2, THEN conjunct2, THEN conjunct2, THEN conjunct2, THEN conjunct2,
      THEN conjunct2, THEN conjunct1]
  note candle = flush_cadence [where key = None and secret = None
      and reached_today = "on_or_after 1000"
      and filepath = "''data/candle_BTC-USDT_interval-1m.csv''"
      and previous_timestamp = None and last_timestamp = "PyInt 0" and t = 0
      and params = "[(''symbol'', StrV ''BTCUSDT''), (''interval'', StrV ''1m''),
                     (''startTime'', IntV 0), (''limit'', IntV 1000)]"
      and batches = "[]" and df = None
      and w = empty_world and ts = "[]" and ds = "[]"
      and ps = "[[\<lparr>cursor_key = 1, event_time = 0\<rparr>], [\<lparr>cursor_key = 2, event_time = 0\<rparr>],
                 [\<lparr>cursor_key = 3, event_time = 0\<rparr>], [\<lparr>cursor_key = 4, event_time = 0\<rparr>],
                 [\<lparr>cursor_key = 5, event_time = 0\<rparr>]]",
      THEN conjunct2, THEN conjunct2, THEN conjunct2, THEN conjunct2, THEN conjunct2, THEN conjunct2,
      THEN conjunct1]
  from trade r have a: "all_trade_to_csv None None ''BTC'' ''USDT''
       [(''symbol'', StrV ''BTCUSDT''), (''fromId'', IntV 0), (''limit'', IntV 1000)] False
       empty_world []
       [Response 200 [\<lparr>cursor_key = 1, event_time = 0\<rparr>],
        Response 200 [\<lparr>cursor_key = 2, event_time = 0\<rparr>],
        Response 200 [\<lparr>cursor_key = 3, event_time = 0\<rparr>],
        Response 200 [\<lparr>cursor_key = 4, event_time = 0\<rparr>],
        Response 200 []] =
     Some (Inr 0,
       \<lparr>sent = [(''aggTrades'',
            [(''symbol'', StrV ''BTCUSDT''), (''fromId'', IntV 0), (''limit'', IntV 1000)], None),
           (''aggTrades'',
            [(''symbol'', StrV ''BTCUSDT''), (''fromId'', NumV (Int64 2)), (''limit'', IntV 1000)], None),
           (''aggTrades'',
            [(''symbol'', StrV ''BTCUSDT''), (''fromId'', NumV (Int64 3)), (''limit'', IntV 1000)], None),
           (''aggTrades'',
            [(''symbol'', StrV ''BTCUSDT''), (''fromId'', NumV (Int64 4)), (''limit'', IntV 1000)], None),
           (''aggTrades'',
            [(''symbol'', StrV ''BTCUSDT''), (''fromId'', NumV (Int64 5)), (''limit'', IntV 1000)], None)],
        time_calls = 0, slept = 0,
        files = [(''data/trade_BTC-USDT.csv'',
                  [\<lparr>cursor_key = 1, event_time = 0\<rparr>, \<lparr>cursor_key = 2, event_time = 0\<rparr>,
                   \<lparr>cursor_key = 3, event_time = 0\<rparr>, \<lparr>cursor_key = 4, event_time = 0\<rparr>])],
        csv_appends = [(''data/trade_BTC-USDT.csv'',
                  [\<lparr>cursor_key = 1, event_time = 0\<rparr>, \<lparr>cursor_key = 2, event_time = 0\<rparr>,
                   \<lparr>cursor_key = 3, event_time = 0\<rparr>, \<lparr>cursor_key = 4, event_time = 0\<rparr>])],
        parquet_files = [], stack_room = 900\<rparr>, [], [])"
    by (simp add: p4 w append_to_csv_def empty_world_def trade_filepath_def)
  from candle have b: "all_candle_to_csv_loop None None (on_or_after 1000) ''data/candle_BTC-USDT_interval-1m.csv''
       None (PyInt 0)
       [(''symbol'', StrV ''BTCUSDT''), (''interval'', StrV ''1m''), (''startTime'', IntV 0),
        (''limit'', IntV 1000)] [] None empty_world []
       [Response 200 [\<lparr>cursor_key = 1, event_time = 0\<rparr>],
        Response 200 [\<lparr>cursor_key = 2, event_time = 0\<rparr>],
        Response 200 [\<lparr>cursor_key = 3, event_time = 0\<rparr>],
        Response 200 [\<lparr>cursor_key = 4, event_time = 0\<rparr>],
        Response 200 [\<lparr>cursor_key = 5, event_time = 0\<rparr>],
        Response 200 []] =
     Some (Inr ([(''symbol'', StrV ''BTCUSDT''), (''interval'', StrV ''1m''),
                 (''startTime'', NumV (Int64 6)), (''limit'', IntV 1000)], [],
                Some [\<lparr>cursor_key = 1, event_time = 0\<rparr>, \<lparr>cursor_key = 2, event_time = 0\<rparr>,
                      \<lparr>cursor_key = 3, event_time = 0\<rparr>, \<lparr>cursor_key = 4, event_time = 0\<rparr>,
                      \<lparr>cursor_key = 5, event_time = 0\<rparr>]),
       \<lparr>sent = [(''klines'',
            [(''symbol'', StrV ''BTCUSDT''), (''interval'', StrV ''1m''), (''startTime'', IntV 1),
             (''limit'', IntV 1000)], None),
           (''klines'',
            [(''symbol'', StrV ''BTCUSDT''), (''interval'', StrV ''1m''),
             (''startTime'', NumV (Int64 2)), (''limit'', IntV 1000)], None),
           (''klines'',
            [(''symbol'', StrV ''BTCUSDT''), (''interval'', StrV ''1m''),
             (''startTime'', NumV (Int64 3)), (''limit'', IntV 1000)], None),
           (''klines'',
            [(''symbol'', StrV ''BTCUSDT''), (''interval'', StrV ''1m''),
             (''startTime'', NumV (Int64 4)), (''limit'', IntV 1000)], None),
           (''klines'',
            [(''symbol'', StrV ''BTCUSDT''), (''interval'', StrV ''1m''),
             (''startTime'', NumV (Int64 5)), (''limit'', IntV 1000)], None),
           (''klines'',
            [(''symbol'', StrV ''BTCUSDT''), (''interval'', StrV ''1m''),
             (''startTime'', NumV (Int64 6)), (''limit'', IntV 1000)], None)],
        time_calls = 0, slept = 0,
        files = [(''data/candle_BTC-USDT_interval-1m.csv'',
                  [\<lparr>cursor_key = 1, event_time = 0\<rparr>, \<lparr>cursor_key = 2, event_time = 0\<rparr>,
                   \<lparr>cursor_key = 3, event_time = 0\<rparr>, \<lparr>cursor_key = 4, event_time = 0\<rparr>,
                   \<lparr>cursor_key = 5, event_time = 0\<rparr>])],
        csv_appends = [(''data/candle_BTC-USDT_interval-1m.csv'',
                  [\<lparr>cursor_key = 1, event_time = 0\<rparr>, \<lparr>cursor_key = 2, event_time = 0\<rparr>,
                   \<lparr>cursor_key = 3, event_time = 0\<rparr>, \<lparr>cursor_key = 4, event_time = 0\<rparr>,
                   \<lparr>cursor_key = 5, event_time = 0\<rparr>])],
        parquet_files = [], stack_room = 900\<rparr>, [], [])"
    by (simp add: p5 w append_to_csv_def empty_world_def unchanged_def on_or_after_def)
  from a b show ?thesis by (rule conjI)
qed

text \<open>
  C4 as stated fails: with limit 1000 and pages of 1000 trades each on a new instrument,
  the loop has flushed when only four pages were fetched; the upstream here has no more
  than four, and the fifth request, sent after the flush, is answered by the empty page.
\<close>

theorem flush_after_four_pages:
  "all_trade_to_csv None None ''BTC'' ''USDT''
       [(''symbol'', StrV ''BTCUSDT''), (''fromId'', IntV 0), (''limit'', IntV 1000)] False
       empty_world []
       [Response 200 (thousand_trades 0), Response 200 (thousand_trades 1),
        Response 200 (thousand_trades 2), Response 200 (thousand_trades 3), Response 200 []] =
     Some (Inr 0, \<lparr>sent =
         [(''aggTrades'', [(''symbol'', StrV ''BTCUSDT''), (''fromId'', IntV 0), (''limit'', IntV 1000)], None),
          (''aggTrades'', [(''symbol'', StrV ''BTCUSDT''), (''fromId'', NumV (Int64 1000)), (''limit'', IntV 1000)], None),
          (''aggTrades'', [(''symbol'', StrV ''BTCUSDT''), (''fromId'', NumV (Int64 2000)), (''limit'', IntV 1000)], None),
          (''aggTrades'', [(''symbol'', StrV ''BTCUSDT''), (''fromId'', NumV (Int64 3000)), (''limit'', IntV 1000)], None),
          (''aggTrades'', [(''symbol'', StrV ''BTCUSDT''), (''fromId'', NumV (Int64 4000)), (''limit'', IntV 1000)], None)],
        time_calls = 0, slept = 0,
        files = [(''data/trade_BTC-USDT.csv'',
           prepare_df [[], thousand_trades 0, thousand_trades 1, thousand_trades 2, thousand_trades 3])],
        csv_appends = [(''data/trade_BTC-USDT.csv'',
           prepare_df [[], thousand_trades 0, thousand_trades 1, thousand_trades 2, thousand_trades 3])],
        parquet_files = [], stack_room = 900\<rparr>, [], [])"
proof -
  have r: "trade_resume (trade_filepath ''BTC'' ''USDT'')
      [(''symbol'', StrV ''BTCUSDT''), (''fromId'', IntV 0), (''limit'', IntV 1000)] empty_world =
      Inr (PyInt 0, [(''symbol'', StrV ''BTCUSDT''), (''fromId'', IntV 0), (''limit'', IntV 1000)])"
    by code_simp
  have w: "wrap64 1000 = 1000" "wrap64 2000 = 2000" "wrap64 3000 = 3000" "wrap64 4000 = 4000"
    by (simp_all add: wrap64_def)
  have "all_trade_to_csv None None ''BTC'' ''USDT''
       [(''symbol'', StrV ''BTCUSDT''), (''fromId'', IntV 0), (''limit'', IntV 1000)] False
       empty_world []
       (map (Response 200) [thousand_trades 0, thousand_trades 1, thousand_trades 2, thousand_trades 3] @
        Response 200 [] # []) =
     Some (Inr 0,
       append_to_csv
         (prepare_df ([] # [thousand_trades 0, thousand_trades 1, thousand_trades 2, thousand_trades 3]))
         (trade_filepath ''BTC'' ''USDT'')
         (empty_world\<lparr>sent := sent empty_world @
            (''aggTrades'', [(''symbol'', StrV ''BTCUSDT''), (''fromId'', IntV 0), (''limit'', IntV 1000)], None) #
            map (\<lambda>p. (''aggTrades'',
                  AList.update ''fromId'' (NumV (Int64 (wrap64 (max_key p + 1))))
                    [(''symbol'', StrV ''BTCUSDT''), (''fromId'', IntV 0), (''limit'', IntV 1000)], None))
              [thousand_trades 0, thousand_trades 1, thousand_trades 2, thousand_trades 3]\<rparr>),
       [], [])"
    by (rule trade_run_four_pages [OF r, where c = 0])
       (simp_all add: thousand_trades_nonempty max_key_thousand_trades)
  then show ?thesis
    by (simp add: w max_key_thousand_trades append_to_csv_def empty_world_def trade_filepath_def)
qed

section \<open>Exhaustion\<close>

text \<open>
  C3, as the code has it: a driver that is about to fetch makes no further fetch after a
  fetch that returns an empty page or a page whose largest key equals the cursor, so it
  ends with the first such page, after as many iterations as pages came before it. The
  candle driver drops a page with the same key as it drops an empty page. The trade
  driver appends the page, flushes if the trigger is reached, and ends at the next test
  of the loop; it ends the same way on a page below a positive cursor.
\<close>

theorem no_progress_ends_loop:
  "(num_ne previous_id last_id \<and> \<not> (num_ge previous_id last_id \<and> num_gt0 previous_id) \<and>
    get_batch (stack_room w) key secret params ''aggTrades'' w ts ds =
      Some (Inr new_batch, params', w', ts', ds') \<longrightarrow>
      (new_batch = [] \<longrightarrow>
         all_trade_to_csv_loop key secret filepath previous_id last_id params batches df w ts ds =
           Some (Inr (params', batches, df), w', ts', ds')) \<and>
      (new_batch \<noteq> [] \<and> map_of params' ''limit'' = Some (IntV l) \<and> num_value last_id = Some v \<and>
       (max_key new_batch = v \<or> max_key new_batch < v \<and> 0 < v) \<longrightarrow>
         all_trade_to_csv_loop key secret filepath previous_id last_id params batches df w ts ds =
           (if 5000 \<le> (int (length batches) + 1) * l then
              Some (Inr (AList.update ''fromId'' (NumV (Int64 (wrap64 (max_key new_batch + 1)))) params',
                         [], Some (prepare_df (batches @ [new_batch]))),
                    append_to_csv (prepare_df (batches @ [new_batch])) filepath w', ts', ds')
            else
              Some (Inr (AList.update ''fromId'' (NumV (Int64 (wrap64 (max_key new_batch + 1)))) params',
                         batches @ [new_batch], df), w', ts', ds')))) \<and>
   (\<not> unchanged previous_timestamp last_timestamp \<and> num_value last_timestamp = Some t \<and>
    \<not> reached_today t \<and>
    get_batch (stack_room w) key secret
      (AList.update ''startTime'' (NumV (add_one last_timestamp)) params)
      ''klines'' w ts ds = Some (Inr new_batch, params', w', ts', ds') \<and>
    (new_batch = [] \<or> max_key new_batch = t) \<longrightarrow>
      all_candle_to_csv_loop key secret reached_today filepath previous_timestamp last_timestamp
          params batches df w ts ds = Some (Inr (params', batches, df), w', ts', ds'))"
proof (intro conjI impI)
  assume a: "num_ne previous_id last_id \<and> \<not> (num_ge previous_id last_id \<and> num_gt0 previous_id) \<and>
    get_batch (stack_room w) key secret params ''aggTrades'' w ts ds =
      Some (Inr new_batch, params', w', ts', ds')"
    and "new_batch = []"
  then show "all_trade_to_csv_loop key secret filepath previous_id last_id params batches df w ts ds =
           Some (Inr (params', batches, df), w', ts', ds')"
    by (simp add: trade_loop_empty_page)
next
  assume a: "num_ne previous_id last_id \<and> \<not> (num_ge previous_id last_id \<and> num_gt0 previous_id) \<and>
    get_batch (stack_room w) key secret params ''aggTrades'' w ts ds =
      Some (Inr new_batch, params', w', ts', ds')"
    and b: "new_batch \<noteq> [] \<and> map_of params' ''limit'' = Some (IntV l) \<and> num_value last_id = Some v \<and>
       (max_key new_batch = v \<or> max_key new_batch < v \<and> 0 < v)"
  from b have ex: "\<not> num_ne last_id (Int64 (max_key new_batch)) \<or>
      (num_ge last_id (Int64 (max_key new_batch)) \<and> num_gt0 last_id)"
    by (auto simp: num_ne_def num_ge_def num_gt0_def)
  from a b have "all_trade_to_csv_loop key secret filepath previous_id last_id params batches df w ts ds =
     (if 5000 \<le> (int (length batches) + 1) * l then
        all_trade_to_csv_loop key secret filepath last_id (Int64 (max_key new_batch))
          (AList.update ''fromId'' (NumV (Int64 (wrap64 (max_key new_batch + 1)))) params') []
          (Some (prepare_df (batches @ [new_batch])))
          (append_to_csv (prepare_df (batches @ [new_batch])) filepath w') ts' ds'
      else
        all_trade_to_csv_loop key secret filepath last_id (Int64 (max_key new_batch))
          (AList.update ''fromId'' (NumV (Int64 (wrap64 (max_key new_batch + 1)))) params')
          (batches @ [new_batch]) df w' ts' ds')"
    by (intro trade_loop_page) simp_all
  then show "all_trade_to_csv_loop key secret filepath previous_id last_id params batches df w ts ds =
           (if 5000 \<le> (int (length batches) + 1) * l then
              Some (Inr (AList.update ''fromId'' (NumV (Int64 (wrap64 (max_key new_batch + 1)))) params',
                         [], Some (prepare_df (batches @ [new_batch]))),
                    append_to_csv (prepare_df (batches @ [new_batch])) filepath w', ts', ds')
            else
              Some (Inr (AList.update ''fromId'' (NumV (Int64 (wrap64 (max_key new_batch + 1)))) params',
                         batches @ [new_batch], df), w', ts', ds'))"
    by (simp only: trade_loop_exit [OF ex])
next
  assume "\<not> unchanged previous_timestamp last_timestamp \<and> num_value last_timestamp = Some t \<and>
    \<not> reached_today t \<and>
    get_batch (stack_room w) key secret
      (AList.update ''startTime'' (NumV (add_one last_timestamp)) params)
      ''klines'' w ts ds = Some (Inr new_batch, params', w', ts', ds') \<and>
    (new_batch = [] \<or> max_key new_batch = t)"
  then show "all_candle_to_csv_loop key secret reached_today filepath previous_timestamp last_timestamp
          params batches df w ts ds = Some (Inr (params', batches, df), w', ts', ds')"
    by (intro candle_loop_stale_page [where t = t]) blast+
qed

theorem no_progress_ends_loop_witness:
  "all_candle_to_csv_loop None None (on_or_after 1000) ''data/candle_BTC-USDT_interval-1m.csv'' None
       (PyInt 100)
       [(''symbol'', StrV ''BTCUSDT''), (''interval'', StrV ''1m''), (''startTime'', IntV 0),
        (''limit'', IntV 1000)]
       [[\<lparr>cursor_key = 100, event_time = 0\<rparr>]] None empty_world []
       [Response 200 [\<lparr>cursor_key = 100, event_time = 0\<rparr>]] =
     Some (Inr ([(''symbol'', StrV ''BTCUSDT''), (''interval'', StrV ''1m''), (''startTime'', IntV 101),
                 (''limit'', IntV 1000)],
                [[\<lparr>cursor_key = 100, event_time = 0\<rparr>]], None),
           \<lparr>sent = [(''klines'',
               [(''symbol'', StrV ''BTCUSDT''), (''interval'', StrV ''1m''), (''startTime'', IntV 101),
                (''limit'', IntV 1000)], None)],
            time_calls = 0, slept = 0, files = [], csv_appends = [], parquet_files = [],
            stack_room = 900\<rparr>, [], [])"
proof -
  have gb: "get_batch (stack_room empty_world) None None
      (AList.update ''startTime'' (NumV (add_one (PyInt 100)))
        [(''symbol'', StrV ''BTCUSDT''), (''interval'', StrV ''1m''), (''startTime'', IntV 0),
         (''limit'', IntV 1000)]) ''klines'' empty_world []
      [Response 200 [\<lparr>cursor_key = 100, event_time = 0\<rparr>]] =
    Some (Inr [\<lparr>cursor_key = 100, event_time = 0\<rparr>],
      [(''symbol'', StrV ''BTCUSDT''), (''interval'', StrV ''1m''), (''startTime'', IntV 101),
       (''limit'', IntV 1000)],
      \<lparr>sent = [(''klines'',
          [(''symbol'', StrV ''BTCUSDT''), (''interval'', StrV ''1m''), (''startTime'', IntV 101),
           (''limit'', IntV 1000)], None)],
       time_calls = 0, slept = 0, files = [], csv_appends = [], parquet_files = [],
       stack_room = 900\<rparr>, [], [])"
    by (simp add: get_batch_Response empty_world_def)
  have run: "\<not> unchanged None (PyInt 100)" "num_value (PyInt 100) = Some 100"
    "\<not> on_or_after 1000 100"
    "max_key [\<lparr>cursor_key = 100, event_time = 0\<rparr>] = 100"
    by (simp_all add: on_or_after_def unchanged_def)
  from no_progress_ends_loop [THEN conjunct2, rule_format,
      where previous_timestamp = None and last_timestamp = "PyInt 100" and t = 100
        and reached_today = "on_or_after 1000" and key = None and secret = None
        and params = "[(''symbol'', StrV ''BTCUSDT''), (''interval'', StrV ''1m''),
                       (''startTime'', IntV 0), (''limit'', IntV 1000)]"
        and w = empty_world and ts = "[]"
        and ds = "[Response 200 [\<lparr>cursor_key = 100, event_time = 0\<rparr>]]"
        and new_batch = "[\<lparr>cursor_key = 100, event_time = 0\<rparr>]"] gb run
  show ?thesis by simp
qed

text \<open>
  C3 as stated fails. In the candle driver a page whose largest key is below the cursor
  does not end the loop: with the cursor at 100 and a page that ends at 50 the driver
  asks for another page (the script of one page gives no result), where an empty page
  ends the run; given a second such page and then an empty one, it has fetched three
  times and written both pages. In the trade driver a page that ends at the cursor is
  written, unlike an empty page.
\<close>

theorem page_below_cursor_keeps_fetching:
  "all_candle_to_csv None None (on_or_after 1000) ''BTC'' ''USDT''
       [(''symbol'', StrV ''BTCUSDT''), (''interval'', StrV ''1m''), (''startTime'', IntV 100),
        (''limit'', IntV 1000)] ''1m'' False empty_world []
       [Response 200 [\<lparr>cursor_key = 50, event_time = 0\<rparr>]] = None \<and>
   all_candle_to_csv None None (on_or_after 1000) ''BTC'' ''USDT''
       [(''symbol'', StrV ''BTCUSDT''), (''interval'', StrV ''1m''), (''startTime'', IntV 100),
        (''limit'', IntV 1000)] ''1m'' False empty_world []
       [Response 200 []] =
     Some (Inr 0,
       \<lparr>sent = [(''klines'',
           [(''symbol'', StrV ''BTCUSDT''), (''interval'', StrV ''1m''), (''startTime'', IntV 101),
            (''limit'', IntV 1000)], None)],
        time_calls = 0, slept = 0, files = [], csv_appends = [], parquet_files = [],
        stack_room = 900\<rparr>, [], []) \<and>
   all_candle_to_csv None None (on_or_after 1000) ''BTC'' ''USDT''
       [(''symbol'', StrV ''BTCUSDT''), (''interval'', StrV ''1m''), (''startTime'', IntV 100),
        (''limit'', IntV 1000)] ''1m'' False empty_world []
       [Response 200 [\<lparr>cursor_key = 50, event_time = 0\<rparr>],
        Response 200 [\<lparr>cursor_key = 40, event_time = 0\<rparr>], Response 200 []] =
     Some (Inr 2,
       \<lparr>sent = [(''klines'',
           [(''symbol'', StrV ''BTCUSDT''), (''interval'', StrV ''1m''), (''startTime'', IntV 101),
            (''limit'', IntV 1000)], None),
          (''klines'',
           [(''symbol'', StrV ''BTCUSDT''), (''interval'', StrV ''1m''),
            (''startTime'', NumV (Int64 51)), (''limit'', IntV 1000)], None),
          (''klines'',
           [(''symbol'', StrV ''BTCUSDT''), (''interval'', StrV ''1m''),
            (''startTime'', NumV (Int64 41)), (''limit'', IntV 1000)], None)],
        time_calls = 0, slept = 0,
        files = [(''data/candle_BTC-USDT_interval-1m.csv'',
           [\<lparr>cursor_key = 40, event_time = 0\<rparr>, \<lparr>cursor_key = 50, event_time = 0\<rparr>])],
        csv_appends = [(''data/candle_BTC-USDT_interval-1m.csv'',
           [\<lparr>cursor_key = 40, event_time = 0\<rparr>, \<lparr>cursor_key = 50, event_time = 0\<rparr>])],
        parquet_files = [], stack_room = 900\<rparr>, [], []) \<and>
   all_trade_to_csv None None ''BTC'' ''USDT''
       [(''symbol'', StrV ''BTCUSDT''), (''fromId'', IntV 0), (''limit'', IntV 1000)] False
       empty_world [] [Response 200 [\<lparr>cursor_key = 0, event_time = 0\<rparr>]] =
     Some (Inr 1,
       \<lparr>sent = [(''aggTrades'',
           [(''symbol'', StrV ''BTCUSDT''), (''fromId'', IntV 0), (''limit'', IntV 1000)], None)],
        time_calls = 0, slept = 0,
        files = [(''data/trade_BTC-USDT.csv'', [\<lparr>cursor_key = 0, event_time = 0\<rparr>])],
        csv_appends = [(''data/trade_BTC-USDT.csv'', [\<lparr>cursor_key = 0, event_time = 0\<rparr>])],
        parquet_files = [], stack_room = 900\<rparr>, [], [])"
  by code_simp

section \<open>The resume cursor\<close>





















end
